theory Spec2Isabelle
  imports Complex_Main "HOL-Library.Char_ord"
begin

section \<open>JavaScript values of the table rows\<close>

text \<open>
  A table row, as Tabletop.js (and the stored snapshot of its output) delivers it, is an
  object whose columns hold strings. Reading a column that the row does not have yields
  \<^verbatim>\<open>undefined\<close>: a field is \<open>Some s\<close> for the string \<open>s\<close> and \<open>None\<close> for
  \<^verbatim>\<open>undefined\<close>.
\<close>

type_synonym field = "string option"

text \<open>
  String concatenation \<^verbatim>\<open>"..." + v\<close> converts \<open>v\<close> with ToString, and
  \<^verbatim>\<open>JSON.parse(v)\<close> does the same with its argument: \<^verbatim>\<open>undefined\<close> becomes the
  nine characters \<^verbatim>\<open>undefined\<close>.
\<close>

definition ToString :: "field \<Rightarrow> string" where
  "ToString v = (case v of None \<Rightarrow> ''undefined'' | Some s \<Rightarrow> s)"

section \<open>JSON texts\<close>

text \<open>
  \<^verbatim>\<open>JSON.parse\<close> belongs to the JavaScript runtime, not to the script. The functions
  that call it take the parser as an argument \<open>parse\<close>, with \<open>None\<close> for a thrown
  SyntaxError, and the theorems about them hold for every such parser. The closed
  examples need one parser to run: \<open>JSON_parse\<close> below follows the JSON grammar
  (ECMA-404): a lexer that reads the text character by character, then a stack machine
  over the tokens. A number keeps its lexeme and a string keeps the characters between
  its quotes, escape sequences checked but not decoded.
\<close>

datatype json =
    JNull
  | JBool bool
  | JNumber string
  | JString string
  | JArray "json list"
  | JObject "(string \<times> json) list"

datatype token =
    TLBracket | TRBracket | TLBrace | TRBrace | TComma | TColon
  | TValue json
  | TString string

definition is_ws :: "char \<Rightarrow> bool" where
  "is_ws c \<longleftrightarrow> c = CHR '' '' \<or> c = CHR 0x09 \<or> c = CHR 0x0A \<or> c = CHR 0x0D"

definition is_digit :: "char \<Rightarrow> bool" where
  "is_digit c \<longleftrightarrow> CHR ''0'' \<le> c \<and> c \<le> CHR ''9''"

definition is_hex :: "char \<Rightarrow> bool" where
  "is_hex c \<longleftrightarrow> is_digit c \<or> (CHR ''a'' \<le> c \<and> c \<le> CHR ''f'') \<or> (CHR ''A'' \<le> c \<and> c \<le> CHR ''F'')"

definition is_letter :: "char \<Rightarrow> bool" where
  "is_letter c \<longleftrightarrow> (CHR ''a'' \<le> c \<and> c \<le> CHR ''z'') \<or> (CHR ''A'' \<le> c \<and> c \<le> CHR ''Z'')"

text \<open>The characters of a number or of a literal name; a maximal run of them is one token.\<close>

definition is_word :: "char \<Rightarrow> bool" where
  "is_word c \<longleftrightarrow> is_digit c \<or> is_letter c \<or> c = CHR ''-'' \<or> c = CHR ''+'' \<or> c = CHR ''.''"

definition punct :: "char \<Rightarrow> token option" where
  "punct c =
     (if c = CHR ''['' then Some TLBracket
      else if c = CHR '']'' then Some TRBracket
      else if c = CHR ''{'' then Some TLBrace
      else if c = CHR ''}'' then Some TRBrace
      else if c = CHR '','' then Some TComma
      else if c = CHR '':'' then Some TColon
      else None)"

text \<open>The number grammar: \<^verbatim>\<open>-? (0 | [1-9][0-9]*) (. [0-9]+)? ([eE] [+-]? [0-9]+)?\<close>.\<close>

definition digits1 :: "string \<Rightarrow> bool" where
  "digits1 s \<longleftrightarrow> s \<noteq> [] \<and> list_all is_digit s"

definition valid_exp :: "string \<Rightarrow> bool" where
  "valid_exp s =
     (case s of
        [] \<Rightarrow> True
      | e # r \<Rightarrow>
          (e = CHR ''e'' \<or> e = CHR ''E'') \<and>
          (case r of
             [] \<Rightarrow> False
           | g # r' \<Rightarrow> if g = CHR ''+'' \<or> g = CHR ''-'' then digits1 r' else digits1 r))"

definition valid_frac :: "string \<Rightarrow> bool" where
  "valid_frac s =
     (case s of
        [] \<Rightarrow> True
      | p # r \<Rightarrow>
          if p = CHR ''.''
          then takeWhile is_digit r \<noteq> [] \<and> valid_exp (dropWhile is_digit r)
          else valid_exp s)"

definition valid_int :: "string \<Rightarrow> bool" where
  "valid_int s =
     (case s of
        [] \<Rightarrow> False
      | d # r \<Rightarrow>
          if d = CHR ''0'' then valid_frac r
          else is_digit d \<and> valid_frac (dropWhile is_digit r))"

definition valid_number :: "string \<Rightarrow> bool" where
  "valid_number s = (case s of [] \<Rightarrow> False | m # r \<Rightarrow> if m = CHR ''-'' then valid_int r else valid_int s)"

definition word_token :: "string \<Rightarrow> token option" where
  "word_token s =
     (if s = ''null'' then Some (TValue JNull)
      else if s = ''true'' then Some (TValue (JBool True))
      else if s = ''false'' then Some (TValue (JBool False))
      else if valid_number s then Some (TValue (JNumber s))
      else None)"

datatype lexmode =
    Idle
  | InWord string
  | InString string
  | InEscape string
  | InUnicode nat string

text \<open>
  The accumulators of \<open>InWord\<close>, \<open>InString\<close>, \<open>InEscape\<close> and \<open>InUnicode\<close> hold
  the characters read so far, last first. A word ends at white space or at a punctuation
  character; any other character after it is a syntax error, as it is for the grammar.
\<close>

fun lex :: "lexmode \<Rightarrow> string \<Rightarrow> token list option" where
  "lex Idle [] = Some []"
| "lex (InWord acc) [] = map_option (\<lambda>t. [t]) (word_token (rev acc))"
| "lex (InString acc) [] = None"
| "lex (InEscape acc) [] = None"
| "lex (InUnicode n acc) [] = None"
| "lex Idle (c # cs) =
     (if is_ws c then lex Idle cs
      else if c = CHR 0x22 then lex (InString []) cs
      else if is_word c then lex (InWord [c]) cs
      else (case punct c of
              None \<Rightarrow> None
            | Some p \<Rightarrow> map_option (\<lambda>ts. p # ts) (lex Idle cs)))"
| "lex (InWord acc) (c # cs) =
     (if is_word c then lex (InWord (c # acc)) cs
      else (case word_token (rev acc) of
              None \<Rightarrow> None
            | Some t \<Rightarrow>
                if is_ws c then map_option (\<lambda>ts. t # ts) (lex Idle cs)
                else (case punct c of
                        None \<Rightarrow> None
                      | Some p \<Rightarrow> map_option (\<lambda>ts. t # p # ts) (lex Idle cs))))"
| "lex (InString acc) (c # cs) =
     (if c = CHR 0x22 then map_option (\<lambda>ts. TString (rev acc) # ts) (lex Idle cs)
      else if c = CHR 0x5C then lex (InEscape (c # acc)) cs
      else if c < CHR 0x20 then None
      else lex (InString (c # acc)) cs)"
| "lex (InEscape acc) (c # cs) =
     (if c = CHR ''u'' then lex (InUnicode 4 (c # acc)) cs
      else if c \<in> set [CHR 0x22, CHR 0x5C, CHR ''/'', CHR ''b'', CHR ''f'', CHR ''n'', CHR ''r'', CHR ''t'']
      then lex (InString (c # acc)) cs
      else None)"
| "lex (InUnicode n acc) (c # cs) =
     (if \<not> is_hex c then None
      else if n \<le> 1 then lex (InString (c # acc)) cs
      else lex (InUnicode (n - 1) (c # acc)) cs)"

text \<open>
  The parser's stack holds the containers that are open: an array with its elements so
  far, or an object with its members so far and the key whose value is being read.
\<close>

datatype frame =
    FArray "json list"
  | FObject "(string \<times> json) list" string

datatype pstate =
    PValue "frame list"
  | PArrayStart "frame list"
  | PObjectStart "frame list"
  | PKey "(string \<times> json) list" "frame list"
  | PColon "(string \<times> json) list" string "frame list"
  | PAfter json "frame list"

fun pvalue :: "frame list \<Rightarrow> token \<Rightarrow> pstate option" where
  "pvalue st (TValue v) = Some (PAfter v st)"
| "pvalue st (TString s) = Some (PAfter (JString s) st)"
| "pvalue st TLBracket = Some (PArrayStart st)"
| "pvalue st TLBrace = Some (PObjectStart st)"
| "pvalue st _ = None"

fun pstep :: "pstate \<Rightarrow> token \<Rightarrow> pstate option" where
  "pstep (PValue st) t = pvalue st t"
| "pstep (PArrayStart st) TRBracket = Some (PAfter (JArray []) st)"
| "pstep (PArrayStart st) t = pvalue (FArray [] # st) t"
| "pstep (PObjectStart st) TRBrace = Some (PAfter (JObject []) st)"
| "pstep (PObjectStart st) (TString k) = Some (PColon [] k st)"
| "pstep (PObjectStart st) _ = None"
| "pstep (PKey ms st) (TString k) = Some (PColon ms k st)"
| "pstep (PKey ms st) _ = None"
| "pstep (PColon ms k st) TColon = Some (PValue (FObject ms k # st))"
| "pstep (PColon ms k st) _ = None"
| "pstep (PAfter v (FArray es # st)) TComma = Some (PValue (FArray (es @ [v]) # st))"
| "pstep (PAfter v (FArray es # st)) TRBracket = Some (PAfter (JArray (es @ [v])) st)"
| "pstep (PAfter v (FObject ms k # st)) TComma = Some (PKey (ms @ [(k, v)]) st)"
| "pstep (PAfter v (FObject ms k # st)) TRBrace = Some (PAfter (JObject (ms @ [(k, v)])) st)"
| "pstep (PAfter v _) _ = None"

fun prun :: "pstate \<Rightarrow> token list \<Rightarrow> json option" where
  "prun (PAfter v []) [] = Some v"
| "prun _ [] = None"
| "prun s (t # ts) = (case pstep s t of None \<Rightarrow> None | Some s' \<Rightarrow> prun s' ts)"

definition JSON_parse :: "string \<Rightarrow> json option" where
  "JSON_parse s = (case lex Idle s of None \<Rightarrow> None | Some ts \<Rightarrow> prun (PValue []) ts)"

section \<open>Table rows and GeoJSON\<close>

text \<open>
  The two row shapes. The columns of a state row are \<^verbatim>\<open>include\<close>, \<^verbatim>\<open>geometry\<close>,
  \<^verbatim>\<open>name\<close>, \<^verbatim>\<open>summary\<close>, \<^verbatim>\<open>state\<close> and \<^verbatim>\<open>local\<close>; the fields carry the
  prefix \<open>row_\<close> because the properties of a feature have four of the same names.
\<close>

record staterow =
  row_include :: field
  row_geometry :: field
  row_name :: field
  row_summary :: field
  row_state :: field
  row_local :: field

record lawrow =
  lat :: field
  long :: field
  location :: field
  category :: field
  level :: field

record properties =
  name :: field
  summary :: field
  state :: field
  local :: field

record geometry =
  geometry_type :: string
  coordinates :: json

record feature =
  feature_type :: string
  geometry :: geometry
  properties :: properties

record featurecollection =
  fc_type :: string
  features :: "feature list"

datatype error = SyntaxError

section \<open>The Leaflet objects\<close>

text \<open>
  Leaflet and Leaflet.AwesomeMarkers are libraries the script calls; their code is not
  part of it. Section 6 of the specification gives the contract they are used through:
  constructors that return a handle (\<^verbatim>\<open>createFeatureLayer\<close>, \<^verbatim>\<open>createMarker\<close>,
  \<^verbatim>\<open>createLayerGroup\<close>, the tile layer) and, on a handle, \<^verbatim>\<open>addTo\<close>, \<^verbatim>\<open>remove\<close>,
  \<^verbatim>\<open>bindPopup\<close>, \<^verbatim>\<open>on\<close>, \<^verbatim>\<open>setStyle\<close> and \<^verbatim>\<open>setIcon\<close>. A handle is a reference
  into a store of objects, so that an object changed after it was attached (a marker
  added to a group that is already on the map) is seen changed through every reference
  to it.
\<close>

type_synonym ref = nat

record style =
  color :: string
  fillColor :: string
  weight :: rat

record icon =
  icon :: string
  iconColor :: string
  markerColor :: string
  prefix :: string
  extraClasses :: string

text \<open>
  A marker holds the two coordinates it was made with, as they were passed, the popup
  bound to it and its icon, \<open>None\<close> while it has Leaflet's default.
\<close>

record marker =
  latlng :: "field \<times> field"
  marker_popup :: "string option"
  marker_icon :: "icon option"

text \<open>
  One layer of a GeoJSON layer: the feature it draws, its popup, its style, and what the
  handlers registered with \<^verbatim>\<open>on\<close> do. Each handler of the script either sets a style
  on its target or does nothing: a handler is the style it sets, \<open>None\<close> when it sets
  none or when no handler is registered.
\<close>

record polygon =
  polygon_feature :: feature
  polygon_popup :: "string option"
  polygon_style :: style
  on_mouseout :: "style option"
  on_mouseover :: "style option"
  on_click :: "style option"

datatype obj =
    TileLayer string
  | GeoJSON "polygon list"
  | LayerGroup "ref list"
  | Marker marker

text \<open>
  The state of the page: the store of Leaflet objects with the next free reference, the
  layers attached to the map \<^verbatim>\<open>map\<close> (\<open>map_layers\<close>, in the order they were attached),
  and the two global variables \<^verbatim>\<open>polygonLayer\<close> and \<^verbatim>\<open>pointGroupLayer\<close>, \<open>None\<close>
  while they are \<^verbatim>\<open>undefined\<close>.
\<close>

record world =
  heap :: "ref \<rightharpoonup> obj"
  next_ref :: ref
  map_layers :: "ref list"
  polygonLayer :: "ref option"
  pointGroupLayer :: "ref option"

text \<open>A constructor stores the new object at the next free reference and returns it.\<close>

definition new_obj :: "obj \<Rightarrow> world \<Rightarrow> ref \<times> world" where
  "new_obj x w = (next_ref w, w\<lparr>heap := (heap w)(next_ref w \<mapsto> x), next_ref := Suc (next_ref w)\<rparr>)"

text \<open>
  Modelled from the spec: \<^verbatim>\<open>remove()\<close> of a layer handle, Leaflet's. It detaches the
  layer from the map and leaves the object as it is; on a layer that is not attached it
  does nothing.
\<close>

definition layer_remove :: "ref \<Rightarrow> world \<Rightarrow> world" where
  "layer_remove l w = w\<lparr>map_layers := removeAll l (map_layers w)\<rparr>"

text \<open>
  Modelled from the spec: \<^verbatim>\<open>addTo(map)\<close> of a layer handle, Leaflet's. It attaches the
  layer to the map; a layer that is attached already is not attached again.
\<close>

definition addTo :: "ref \<Rightarrow> world \<Rightarrow> world" where
  "addTo l w = (if l \<in> set (map_layers w) then w else w\<lparr>map_layers := map_layers w @ [l]\<rparr>)"

text \<open>
  Modelled from the spec: \<^verbatim>\<open>addTo(group)\<close> of a marker handle, Leaflet's. It appends the
  marker to the layers of the group. Here and in \<open>bindPopup\<close> and \<open>setIcon\<close>, a
  reference that does not hold an object of the expected kind leaves the state as it
  is; the script makes no such call.
\<close>

definition addTo_group :: "ref \<Rightarrow> ref \<Rightarrow> world \<Rightarrow> world" where
  "addTo_group m g w =
     (case heap w g of
        Some (LayerGroup ms) \<Rightarrow> w\<lparr>heap := (heap w)(g \<mapsto> LayerGroup (ms @ [m]))\<rparr>
      | _ \<Rightarrow> w)"

text \<open>Modelled from the spec: \<^verbatim>\<open>bindPopup(html)\<close> of a marker handle, Leaflet's.\<close>

definition bindPopup :: "ref \<Rightarrow> string \<Rightarrow> world \<Rightarrow> world" where
  "bindPopup m html w =
     (case heap w m of
        Some (Marker k) \<Rightarrow> w\<lparr>heap := (heap w)(m \<mapsto> Marker (k\<lparr>marker_popup := Some html\<rparr>))\<rparr>
      | _ \<Rightarrow> w)"

text \<open>Modelled from the spec: \<^verbatim>\<open>setIcon(icon)\<close> of a marker handle, Leaflet's.\<close>

definition setIcon :: "ref \<Rightarrow> icon \<Rightarrow> world \<Rightarrow> world" where
  "setIcon m i w =
     (case heap w m of
        Some (Marker k) \<Rightarrow> w\<lparr>heap := (heap w)(m \<mapsto> Marker (k\<lparr>marker_icon := Some i\<rparr>))\<rparr>
      | _ \<Rightarrow> w)"

text \<open>
  Modelled from the spec: \<^verbatim>\<open>L.marker([lat, lng])\<close>, Leaflet's; in the specification
  \<^verbatim>\<open>createMarker(lat, lng) -> MarkerHandle\<close>. As the specification has it, the
  constructor validates nothing: whatever the two coordinates are, it returns a marker
  that holds them.
\<close>

definition L_marker :: "field \<times> field \<Rightarrow> world \<Rightarrow> ref \<times> world" where
  "L_marker p w = new_obj (Marker \<lparr>latlng = p, marker_popup = None, marker_icon = None\<rparr>) w"

text \<open>
  Modelled from the spec: \<^verbatim>\<open>L.layerGroup()\<close>, Leaflet's; in the specification
  \<^verbatim>\<open>createLayerGroup() -> LayerGroupHandle\<close>. The new group is empty.
\<close>

definition L_layerGroup :: "world \<Rightarrow> ref \<times> world" where
  "L_layerGroup w = new_obj (LayerGroup []) w"

text \<open>
  Modelled from the spec: \<^verbatim>\<open>L.geoJSON(geojson, {onEachFeature: f, style: s})\<close>,
  Leaflet's; in the specification \<^verbatim>\<open>createFeatureLayer\<close>. It makes one layer for each
  feature of the collection, in order, styled \<open>s\<close>, and calls \<open>f\<close> on the feature and
  its layer. It does not look into the coordinates.
\<close>

definition L_geoJSON ::
  "featurecollection \<Rightarrow> (feature \<Rightarrow> polygon \<Rightarrow> polygon) \<Rightarrow> style \<Rightarrow> world \<Rightarrow> ref \<times> world" where
  "L_geoJSON geojson f s w =
     new_obj
       (GeoJSON
         (map (\<lambda>x. f x \<lparr>polygon_feature = x, polygon_popup = None, polygon_style = s,
                        on_mouseout = None, on_mouseover = None, on_click = None\<rparr>)
            (features geojson)))
       w"

text \<open>
  Modelled from the spec: \<^verbatim>\<open>L.AwesomeMarkers.icon(options)\<close>, of the plug-in
  Leaflet.AwesomeMarkers. The icon is its options.
\<close>

definition AwesomeMarkers_icon :: "icon \<Rightarrow> icon" where
  "AwesomeMarkers_icon options = options"

section \<open>The script\<close>

text \<open>
  The page as the script's top level leaves it: the map holds the base map and nothing
  else, and both layer variables are \<^verbatim>\<open>undefined\<close>.
\<close>

definition basemap :: obj where
  "basemap = TileLayer ''https://cartodb-basemaps-{s}.global.ssl.fastly.net/light_all/{z}/{x}/{y}{r}.png''"

definition init_world :: world where
  "init_world =
     addTo 0 (snd (new_obj basemap
       \<lparr>heap = Map.empty, next_ref = 0, map_layers = [], polygonLayer = None, pointGroupLayer = None\<rparr>))"

subsection \<open>getColor\<close>

text \<open>
  \<^verbatim>\<open>switch\<close> compares with \<^verbatim>\<open>===\<close>: a case is taken when the argument is that very
  string. \<^verbatim>\<open>undefined\<close> takes the default.
\<close>

definition getColor :: "field \<Rightarrow> string" where
  "getColor type =
     (if type = Some ''Bag Ban'' then ''green''
      else if type = Some ''Recycling'' then ''blue''
      else ''green'')"

subsection \<open>addPolygons\<close>

definition poylgonStyle :: style where
  "poylgonStyle = \<lparr>color = ''#2ca25f'', fillColor = ''#99d8c9'', weight = 1.5\<rparr>"

definition polygonHoverStyle :: style where
  "polygonHoverStyle = \<lparr>color = ''green'', fillColor = ''#2ca25f'', weight = 3\<rparr>"

text \<open>
  The test \<^verbatim>\<open>data[row].include == "y"\<close>. On a string, \<^verbatim>\<open>==\<close> is equality of
  strings; \<^verbatim>\<open>undefined == "y"\<close> is false.
\<close>

definition included :: "staterow \<Rightarrow> bool" where
  "included r \<longleftrightarrow> row_include r = Some ''y''"

text \<open>
  The loop \<^verbatim>\<open>for (var row in data)\<close> over the rows of the table, in the order of their
  indices. \<^verbatim>\<open>JSON.parse\<close> is called on the rows that pass the test only; when it
  throws, the exception leaves the loop and the function.
\<close>

fun addPolygons_loop ::
  "(string \<Rightarrow> json option) \<Rightarrow> staterow list \<Rightarrow> featurecollection \<Rightarrow> error + featurecollection" where
  "addPolygons_loop parse [] geojsonStates = Inr geojsonStates"
| "addPolygons_loop parse (r # data) geojsonStates =
     (if included r then
        (case parse (ToString (row_geometry r)) of
           None \<Rightarrow> Inl SyntaxError
         | Some coords \<Rightarrow>
             addPolygons_loop parse data
               (geojsonStates\<lparr>features := features geojsonStates @
                  [\<lparr>feature_type = ''Feature'',
                    geometry = \<lparr>geometry_type = ''MultiPolygon'', coordinates = coords\<rparr>,
                    properties = \<lparr>name = row_name r, summary = row_summary r,
                                   state = row_state r, local = row_local r\<rparr>\<rparr>]\<rparr>))
      else addPolygons_loop parse data geojsonStates)"

text \<open>The collection the loop leaves in \<^verbatim>\<open>geojsonStates\<close>, or the exception it throws.\<close>

definition geojsonStates :: "(string \<Rightarrow> json option) \<Rightarrow> staterow list \<Rightarrow> error + featurecollection" where
  "geojsonStates parse data =
     addPolygons_loop parse data \<lparr>fc_type = ''FeatureCollection'', features = []\<rparr>"

definition onEachFeature :: "feature \<Rightarrow> polygon \<Rightarrow> polygon" where
  "onEachFeature feature layer =
     layer\<lparr>polygon_popup :=
             Some (''<h2>'' @ ToString (name (properties feature)) @ ''</h2><p>'' @
                   ToString (summary (properties feature)) @ ''</p>''),
           on_mouseout := Some poylgonStyle,
           on_mouseover := Some polygonHoverStyle,
           on_click := None\<rparr>"

text \<open>
  \<open>addPolygons\<close> returns how it ended, \<open>Inl\<close> the exception thrown or \<open>Inr ()\<close>, with
  the state it leaves: an exception thrown in a callback undoes nothing of what the
  callback did before.
\<close>

definition addPolygons ::
  "(string \<Rightarrow> json option) \<Rightarrow> staterow list \<Rightarrow> world \<Rightarrow> (error + unit) \<times> world" where
  "addPolygons parse data w =
     (let w1 = (case polygonLayer w of None \<Rightarrow> w | Some l \<Rightarrow> layer_remove l w) in
      case geojsonStates parse data of
        Inl e \<Rightarrow> (Inl e, w1)
      | Inr fc \<Rightarrow>
          (let (l, w2) = L_geoJSON fc onEachFeature poylgonStyle w1;
               w3 = addTo l w2
           in (Inr (), w3\<lparr>polygonLayer := Some l\<rparr>)))"

subsection \<open>addPoints\<close>

text \<open>
  The loop \<^verbatim>\<open>for (var row = 0; row < data.length; row++)\<close>. It adds every marker to
  \<^verbatim>\<open>pointGroupLayer\<close>, which \<open>addPoints\<close> assigns before the loop and the loop never
  assigns: \<open>g\<close> is that value.
\<close>

fun addPoints_loop :: "lawrow list \<Rightarrow> ref \<Rightarrow> world \<Rightarrow> world" where
  "addPoints_loop [] g w = w"
| "addPoints_loop (r # data) g w =
     (let (marker, w1) = L_marker (lat r, long r) w;
          w2 = addTo_group marker g w1;
          w3 = bindPopup marker
                 (''<h2>'' @ ToString (location r) @ ''</h2>'' @ ToString (category r) @
                  '' regulations at '' @ ToString (level r) @ '' level'') w2;
          w4 = setIcon marker
                 (AwesomeMarkers_icon
                    \<lparr>icon = ''info-sign'', iconColor = ''white'',
                     markerColor = getColor (category r),
                     prefix = ''glyphicon'', extraClasses = ''fa-rotate-0''\<rparr>) w3
      in addPoints_loop data g w4)"

definition addPoints :: "lawrow list \<Rightarrow> world \<Rightarrow> world" where
  "addPoints data w =
     (let w1 = (case pointGroupLayer w of None \<Rightarrow> w | Some l \<Rightarrow> layer_remove l w);
          (g, w2) = L_layerGroup w1;
          w3 = addTo g w2
      in addPoints_loop data g (w3\<lparr>pointGroupLayer := Some g\<rparr>))"

section \<open>What is on the map\<close>

definition is_GeoJSON :: "(ref \<rightharpoonup> obj) \<Rightarrow> ref \<Rightarrow> bool" where
  "is_GeoJSON h l = (case h l of Some (GeoJSON ps) \<Rightarrow> True | _ \<Rightarrow> False)"

definition is_LayerGroup :: "(ref \<rightharpoonup> obj) \<Rightarrow> ref \<Rightarrow> bool" where
  "is_LayerGroup h l = (case h l of Some (LayerGroup ms) \<Rightarrow> True | _ \<Rightarrow> False)"

text \<open>The polygon layers and the point layer groups attached to the map.\<close>

definition polygon_layers :: "world \<Rightarrow> ref list" where
  "polygon_layers w = filter (is_GeoJSON (heap w)) (map_layers w)"

definition point_layers :: "world \<Rightarrow> ref list" where
  "point_layers w = filter (is_LayerGroup (heap w)) (map_layers w)"

definition polygons_of :: "(ref \<rightharpoonup> obj) \<Rightarrow> ref \<Rightarrow> polygon list" where
  "polygons_of h l = (case h l of Some (GeoJSON ps) \<Rightarrow> ps | _ \<Rightarrow> [])"

definition children :: "(ref \<rightharpoonup> obj) \<Rightarrow> ref \<Rightarrow> ref list" where
  "children h g = (case h g of Some (LayerGroup ms) \<Rightarrow> ms | _ \<Rightarrow> [])"

definition markers_of :: "(ref \<rightharpoonup> obj) \<Rightarrow> ref \<Rightarrow> obj option list" where
  "markers_of h g = map h (children h g)"

text \<open>
  What the map shows of each kind of layer: the polygons of every attached polygon
  layer, and the objects in every attached layer group. The references themselves are
  not part of it.
\<close>

definition rendered_polygons :: "world \<Rightarrow> polygon list list" where
  "rendered_polygons w = map (polygons_of (heap w)) (polygon_layers w)"

definition rendered_points :: "world \<Rightarrow> obj option list list" where
  "rendered_points w = map (markers_of (heap w)) (point_layers w)"

text \<open>
  The states the script keeps the page in: every reference in use is below the next
  free one, no layer is attached twice, a polygon layer on the map is the one
  \<^verbatim>\<open>polygonLayer\<close> holds and a layer group on the map is the one \<^verbatim>\<open>pointGroupLayer\<close>
  holds.
\<close>

definition world_ok :: "world \<Rightarrow> bool" where
  "world_ok w \<longleftrightarrow>
     distinct (map_layers w) \<and>
     list_all (\<lambda>l. l < next_ref w) (map_layers w) \<and>
     list_all (\<lambda>l. is_GeoJSON (heap w) l \<longrightarrow> polygonLayer w = Some l) (map_layers w) \<and>
     list_all (\<lambda>l. is_LayerGroup (heap w) l \<longrightarrow> pointGroupLayer w = Some l) (map_layers w) \<and>
     (case polygonLayer w of None \<Rightarrow> True | Some l \<Rightarrow> l < next_ref w \<and> is_GeoJSON (heap w) l) \<and>
     (case pointGroupLayer w of
        None \<Rightarrow> True
      | Some g \<Rightarrow>
          g < next_ref w \<and> is_LayerGroup (heap w) g \<and>
          list_all (\<lambda>m. m < next_ref w) (children (heap w) g))"

text \<open>
  The state after \<^verbatim>\<open>if (v != null) { v.remove() }\<close>, the first statement of both
  callbacks, for the value \<open>v\<close> of the variable.
\<close>

definition detached :: "ref option \<Rightarrow> world \<Rightarrow> world" where
  "detached v w = (case v of None \<Rightarrow> w | Some l \<Rightarrow> layer_remove l w)"

text \<open>The layers \<^verbatim>\<open>L.geoJSON\<close> makes of a collection under the options of \<open>addPolygons\<close>.\<close>

definition drawn :: "featurecollection \<Rightarrow> polygon list" where
  "drawn fc =
     map (\<lambda>x. onEachFeature x
                 \<lparr>polygon_feature = x, polygon_popup = None, polygon_style = poylgonStyle,
                  on_mouseout = None, on_mouseover = None, on_click = None\<rparr>)
       (features fc)"

text \<open>What a marker built from a row of the laws table holds when \<open>addPoints\<close> is done with it.\<close>

definition row_marker :: "lawrow \<Rightarrow> marker" where
  "row_marker r =
     \<lparr>latlng = (lat r, long r),
      marker_popup =
        Some (''<h2>'' @ ToString (location r) @ ''</h2>'' @ ToString (category r) @
              '' regulations at '' @ ToString (level r) @ '' level''),
      marker_icon =
        Some \<lparr>icon = ''info-sign'', iconColor = ''white'', markerColor = getColor (category r),
              prefix = ''glyphicon'', extraClasses = ''fa-rotate-0''\<rparr>\<rparr>"

text \<open>The feature a row of the states table becomes, when its geometry parses.\<close>

definition row_feature :: "(string \<Rightarrow> json option) \<Rightarrow> staterow \<Rightarrow> feature option" where
  "row_feature parse r =
     map_option
       (\<lambda>coords.
          \<lparr>feature_type = ''Feature'',
           geometry = \<lparr>geometry_type = ''MultiPolygon'', coordinates = coords\<rparr>,
           properties = \<lparr>name = row_name r, summary = row_summary r,
                          state = row_state r, local = row_local r\<rparr>\<rparr>)
       (parse (ToString (row_geometry r)))"

text \<open>
  The store after the loop of \<open>addPoints\<close> has run over \<open>data\<close> from a store \<open>h\<close> whose
  next free reference is \<open>n\<close>: the group \<open>g\<close> has one more child for each row, in order,
  and each child is the marker of its row.
\<close>

definition points_heap :: "(ref \<rightharpoonup> obj) \<Rightarrow> ref \<Rightarrow> ref list \<Rightarrow> ref \<Rightarrow> lawrow list \<Rightarrow> (ref \<rightharpoonup> obj)" where
  "points_heap h g ms n data =
     (\<lambda>r. if r = g then Some (LayerGroup (ms @ [n..<n + length data]))
          else if n \<le> r \<and> r < n + length data then Some (Marker (row_marker (data ! (r - n))))
          else h r)"

text \<open>Data arriving from either source, and the callback it is handed to.\<close>

datatype arrival = States "staterow list" | Laws "lawrow list"

fun deliver :: "(string \<Rightarrow> json option) \<Rightarrow> arrival \<Rightarrow> world \<Rightarrow> world" where
  "deliver parse (States data) w = snd (addPolygons parse data w)"
| "deliver parse (Laws data) w = addPoints data w"

text \<open>A history of arrivals, delivered one after the other.\<close>

definition run :: "(string \<Rightarrow> json option) \<Rightarrow> arrival list \<Rightarrow> world \<Rightarrow> world" where
  "run parse history w = fold (deliver parse) history w"

section \<open>Example tables\<close>

definition example_square :: string where
  "example_square = ''[[[[0,0],[1,0],[1,1],[0,0]]]]''"

definition example_coords :: json where
  "example_coords =
     JArray [JArray [JArray [JArray [JNumber ''0'', JNumber ''0''], JArray [JNumber ''1'', JNumber ''0''],
                             JArray [JNumber ''1'', JNumber ''1''], JArray [JNumber ''0'', JNumber ''0'']]]]"

text \<open>A row of the states table with the given \<^verbatim>\<open>include\<close> and \<^verbatim>\<open>geometry\<close> columns.\<close>

definition example_state :: "string \<Rightarrow> string \<Rightarrow> staterow" where
  "example_state inc geom =
     \<lparr>row_include = Some inc, row_geometry = Some geom, row_name = Some ''Utah'',
      row_summary = Some ''Bag ban'', row_state = Some ''UT'', row_local = None\<rparr>"

definition example_feature :: feature where
  "example_feature =
     \<lparr>feature_type = ''Feature'',
      geometry = \<lparr>geometry_type = ''MultiPolygon'', coordinates = example_coords\<rparr>,
      properties = \<lparr>name = Some ''Utah'', summary = Some ''Bag ban'', state = Some ''UT'', local = None\<rparr>\<rparr>"

text \<open>
  Five rows: one that passes the test, then rows whose \<^verbatim>\<open>include\<close> is \<^verbatim>\<open>n\<close>, \<^verbatim>\<open>Y\<close>,
  the empty string and missing, the last with a geometry that is not JSON.
\<close>

definition example_table :: "staterow list" where
  "example_table =
     [example_state ''y'' example_square, example_state ''n'' example_square,
      example_state ''Y'' example_square, example_state '''' example_square,
      (example_state ''y'' ''not json'')\<lparr>row_include := None\<rparr>]"

definition example_collection :: featurecollection where
  "example_collection = \<lparr>fc_type = ''FeatureCollection'', features = [example_feature]\<rparr>"

definition named_state :: "string \<Rightarrow> string \<Rightarrow> staterow" where
  "named_state nm inc =
     \<lparr>row_include = Some inc, row_geometry = Some example_square, row_name = Some nm,
      row_summary = None, row_state = None, row_local = None\<rparr>"

definition named_feature :: "string \<Rightarrow> feature" where
  "named_feature nm =
     \<lparr>feature_type = ''Feature'',
      geometry = \<lparr>geometry_type = ''MultiPolygon'', coordinates = example_coords\<rparr>,
      properties = \<lparr>name = Some nm, summary = None, state = None, local = None\<rparr>\<rparr>"

definition example_law :: "field \<Rightarrow> field \<Rightarrow> string \<Rightarrow> lawrow" where
  "example_law la lo cat =
     \<lparr>lat = la, long = lo, location = Some ''Boulder'', category = Some cat, level = Some ''city''\<rparr>"

section \<open>The example texts under \<open>JSON_parse\<close>\<close>

lemmas JSON_defs = JSON_parse_def is_ws_def is_word_def is_digit_def is_letter_def is_hex_def punct_def
  word_token_def valid_number_def valid_int_def valid_frac_def valid_exp_def digits1_def

lemma JSON_parse_square: "JSON_parse example_square = Some example_coords"
  by (simp add: example_square_def example_coords_def JSON_defs)

lemma JSON_parse_not_json: "JSON_parse ''not json'' = None"
  by (simp add: JSON_defs)

lemma JSON_parse_undefined: "JSON_parse ''undefined'' = None"
  by (simp add: JSON_defs)

section \<open>The feature collection\<close>

text \<open>
  The loop as a whole: it throws as soon as the geometry of a row that passes the test
  does not parse, and otherwise appends the features of the rows that pass, in order.
\<close>

lemma addPolygons_loop_char:
  "addPolygons_loop parse data fc =
     (if list_all (\<lambda>r. parse (ToString (row_geometry r)) \<noteq> None) (filter included data)
      then Inr (fc\<lparr>features := features fc @ map (\<lambda>r. the (row_feature parse r)) (filter included data)\<rparr>)
      else Inl SyntaxError)"
  by (induction data arbitrary: fc) (auto simp: row_feature_def split: option.splits)

lemma geojsonStates_Inr:
  assumes "geojsonStates parse data = Inr fc"
  shows "fc_type fc = ''FeatureCollection''"
    and "map Some (features fc) = map (row_feature parse) (filter included data)"
    and "list_all (\<lambda>r. parse (ToString (row_geometry r)) \<noteq> None) (filter included data)"
  using assms unfolding geojsonStates_def addPolygons_loop_char
  by (auto simp: list_all_iff row_feature_def split: if_splits)

lemma geojsonStates_Inl:
  "geojsonStates parse data = Inl e \<longleftrightarrow>
     e = SyntaxError \<and> \<not> list_all (\<lambda>r. parse (ToString (row_geometry r)) \<noteq> None) (filter included data)"
  unfolding geojsonStates_def addPolygons_loop_char by (cases e) auto

lemma geojsonStates_total:
  "list_all (\<lambda>r. parse (ToString (row_geometry r)) \<noteq> None) (filter included data) \<Longrightarrow>
     \<exists>fc. geojsonStates parse data = Inr fc"
  unfolding geojsonStates_def addPolygons_loop_char by simp

lemma included_filter: "filter included data = filter (\<lambda>r. row_include r = Some ''y'') data"
  by (rule filter_cong) (simp_all add: included_def)

lemma example_geojsonStates: "geojsonStates JSON_parse example_table = Inr example_collection"
  by (simp add: geojsonStates_def included_def example_table_def example_state_def ToString_def
      JSON_parse_square example_collection_def example_feature_def)

text \<open>
  C1. A row of the states table becomes a feature exactly when its \<^verbatim>\<open>include\<close> column
  is the string \<^verbatim>\<open>y\<close>: when the build returns a collection, its features are the
  features of the rows whose \<^verbatim>\<open>include\<close> is \<open>Some ''y''\<close>, one for each and no other;
  a row with any other \<^verbatim>\<open>include\<close> (another string, the empty string, or no such
  column) can be taken out of the table without changing the outcome; and the build does
  return a collection whenever the geometry of every such row parses.
\<close>

theorem addPolygons_includes_iff_y:
  "(geojsonStates parse data = Inr fc \<longrightarrow>
      map Some (features fc) =
        map (row_feature parse) (filter (\<lambda>r. row_include r = Some ''y'') data)) \<and>
   (row_include r \<noteq> Some ''y'' \<longrightarrow>
      geojsonStates parse (xs @ r # ys) = geojsonStates parse (xs @ ys)) \<and>
   (list_all (\<lambda>r. parse (ToString (row_geometry r)) \<noteq> None)
      (filter (\<lambda>r. row_include r = Some ''y'') data) \<longrightarrow>
      (\<exists>fc. geojsonStates parse data = Inr fc))"
proof (intro conjI impI)
  assume "geojsonStates parse data = Inr fc"
  then show "map Some (features fc) =
      map (row_feature parse) (filter (\<lambda>r. row_include r = Some ''y'') data)"
    using geojsonStates_Inr(2) by (simp add: included_filter)
next
  assume "row_include r \<noteq> Some ''y''"
  then have "filter included (xs @ r # ys) = filter included (xs @ ys)"
    by (simp add: included_def)
  then show "geojsonStates parse (xs @ r # ys) = geojsonStates parse (xs @ ys)"
    unfolding geojsonStates_def addPolygons_loop_char by simp
next
  assume "list_all (\<lambda>r. parse (ToString (row_geometry r)) \<noteq> None)
      (filter (\<lambda>r. row_include r = Some ''y'') data)"
  then show "\<exists>fc. geojsonStates parse data = Inr fc"
    using geojsonStates_total by (simp add: included_filter)
qed

theorem addPolygons_includes_iff_y_witness:
  "geojsonStates JSON_parse example_table = Inr example_collection \<and>
   length example_table = 5 \<and> length (features example_collection) = 1 \<and>
   map Some (features example_collection) =
     map (row_feature JSON_parse) (filter (\<lambda>r. row_include r = Some ''y'') example_table) \<and>
   filter (\<lambda>r. row_include r = Some ''y'') example_table = [example_state ''y'' example_square] \<and>
   row_include (example_state ''Y'' example_square) \<noteq> Some ''y'' \<and>
   geojsonStates JSON_parse ([example_state ''y'' example_square] @ example_state ''Y'' example_square # []) =
     geojsonStates JSON_parse ([example_state ''y'' example_square] @ []) \<and>
   list_all (\<lambda>r. JSON_parse (ToString (row_geometry r)) \<noteq> None)
     (filter (\<lambda>r. row_include r = Some ''y'') example_table) \<and>
   (\<exists>fc. geojsonStates JSON_parse example_table = Inr fc)"
proof -
  have f: "filter (\<lambda>r. row_include r = Some ''y'') example_table = [example_state ''y'' example_square]"
    by (simp add: example_table_def example_state_def)
  have n: "row_include (example_state ''Y'' example_square) \<noteq> Some ''y''"
    by (simp add: example_state_def)
  have p: "list_all (\<lambda>r. JSON_parse (ToString (row_geometry r)) \<noteq> None)
     (filter (\<lambda>r. row_include r = Some ''y'') example_table)"
    unfolding f by (simp add: example_state_def ToString_def JSON_parse_square)
  from addPolygons_includes_iff_y
    [of JSON_parse example_table example_collection "example_state ''Y'' example_square"
      "[example_state ''y'' example_square]" "[]"]
    example_geojsonStates n p
  have "map Some (features example_collection) =
      map (row_feature JSON_parse) (filter (\<lambda>r. row_include r = Some ''y'') example_table)"
    and "geojsonStates JSON_parse ([example_state ''y'' example_square] @ example_state ''Y'' example_square # []) =
      geojsonStates JSON_parse ([example_state ''y'' example_square] @ [])"
    and "\<exists>fc. geojsonStates JSON_parse example_table = Inr fc"
    by blast+
  with example_geojsonStates f n p show ?thesis
    by (simp add: example_table_def example_collection_def)
qed

text \<open>
  C3. \<open>getColor\<close> is an exact-match table: \<^verbatim>\<open>Bag Ban\<close> gives green, \<^verbatim>\<open>Recycling\<close>
  gives blue, and every other argument gives green, the empty string and \<^verbatim>\<open>Composting\<close>
  among them; it always returns one of the two colours.
\<close>

theorem getColor_table:
  "getColor (Some ''Bag Ban'') = ''green'' \<and>
   getColor (Some ''Recycling'') = ''blue'' \<and>
   getColor (Some '''') = ''green'' \<and>
   getColor (Some ''Composting'') = ''green'' \<and>
   (\<forall>type. type \<noteq> Some ''Bag Ban'' \<longrightarrow> type \<noteq> Some ''Recycling'' \<longrightarrow> getColor type = ''green'') \<and>
   (\<forall>type. getColor type = ''green'' \<or> getColor type = ''blue'')"
  by (simp add: getColor_def)

theorem getColor_table_witness:
  "Some ''recycling'' \<noteq> Some ''Bag Ban'' \<and> Some ''recycling'' \<noteq> Some ''Recycling'' \<and>
   getColor (Some ''recycling'') = ''green'' \<and> getColor None = ''green''"
  using getColor_table by simp

lemma geojsonStates_features:
  assumes "geojsonStates parse data = Inr fc"
  shows "features fc = map (\<lambda>r. the (row_feature parse r)) (filter included data)"
  using assms unfolding geojsonStates_def addPolygons_loop_char
  by (auto split: if_splits)

text \<open>
  C5. When the build returns a collection, the properties of its features are, row by
  row, the \<^verbatim>\<open>name\<close>, \<^verbatim>\<open>summary\<close>, \<^verbatim>\<open>state\<close> and \<^verbatim>\<open>local\<close> columns of the rows
  that pass the test, as they stand in the row (a missing column stays \<^verbatim>\<open>undefined\<close>);
  the record has these four keys and no other.
\<close>

theorem addPolygons_properties_verbatim:
  assumes "geojsonStates parse data = Inr fc"
  shows "map properties (features fc) =
           map (\<lambda>r. \<lparr>name = row_name r, summary = row_summary r, state = row_state r, local = row_local r\<rparr>)
             (filter (\<lambda>r. row_include r = Some ''y'') data)"
proof -
  have ok: "list_all (\<lambda>r. parse (ToString (row_geometry r)) \<noteq> None) (filter included data)"
    using assms by (rule geojsonStates_Inr(3))
  have "map properties (features fc) =
        map (\<lambda>r. properties (the (row_feature parse r))) (filter included data)"
    by (simp add: geojsonStates_features [OF assms] comp_def)
  also have "\<dots> = map (\<lambda>r. \<lparr>name = row_name r, summary = row_summary r, state = row_state r,
                           local = row_local r\<rparr>) (filter included data)"
  proof (rule map_cong [OF refl])
    fix r assume "r \<in> set (filter included data)"
    with ok have "parse (ToString (row_geometry r)) \<noteq> None"
      by (simp add: list_all_iff)
    then show "properties (the (row_feature parse r)) =
        \<lparr>name = row_name r, summary = row_summary r, state = row_state r, local = row_local r\<rparr>"
      by (auto simp: row_feature_def)
  qed
  finally show ?thesis
    by (simp add: included_filter)
qed

theorem addPolygons_properties_verbatim_witness:
  "map properties (features example_collection) =
     [\<lparr>name = Some ''Utah'', summary = Some ''Bag ban'', state = Some ''UT'', local = None\<rparr>]"
  using addPolygons_properties_verbatim [OF example_geojsonStates]
  by (simp add: example_table_def example_state_def)

text \<open>
  C8. Every collection the build returns is tagged \<^verbatim>\<open>FeatureCollection\<close>, and each of
  its features is tagged \<^verbatim>\<open>Feature\<close> with a geometry of type \<^verbatim>\<open>MultiPolygon\<close>.
\<close>

theorem addPolygons_type_tags:
  assumes "geojsonStates parse data = Inr fc"
  shows "fc_type fc = ''FeatureCollection'' \<and>
         (\<forall>f \<in> set (features fc).
            feature_type f = ''Feature'' \<and> geometry_type (geometry f) = ''MultiPolygon'')"
proof
  show "fc_type fc = ''FeatureCollection''"
    using assms by (rule geojsonStates_Inr(1))
  show "\<forall>f \<in> set (features fc).
          feature_type f = ''Feature'' \<and> geometry_type (geometry f) = ''MultiPolygon''"
  proof
    fix f assume "f \<in> set (features fc)"
    then have "Some f \<in> set (map Some (features fc))" by simp
    then have "Some f \<in> set (map (row_feature parse) (filter included data))"
      using geojsonStates_Inr(2) [OF assms] by simp
    then obtain r where "row_feature parse r = Some f" by auto
    then show "feature_type f = ''Feature'' \<and> geometry_type (geometry f) = ''MultiPolygon''"
      by (auto simp: row_feature_def)
  qed
qed

theorem addPolygons_type_tags_witness:
  "fc_type example_collection = ''FeatureCollection'' \<and>
   features example_collection = [example_feature] \<and>
   feature_type example_feature = ''Feature'' \<and>
   geometry_type (geometry example_feature) = ''MultiPolygon''"
  using addPolygons_type_tags [OF example_geojsonStates]
  by (simp add: example_collection_def)

lemma filter_nth_position:
  assumes "i < length xs" "P (xs ! i)"
  shows "length (filter P (take i xs)) < length (filter P xs)"
    and "filter P xs ! length (filter P (take i xs)) = xs ! i"
proof -
  have "xs = take i xs @ xs ! i # drop (Suc i) xs"
    using assms(1) by (rule id_take_nth_drop)
  then have "filter P xs = filter P (take i xs @ xs ! i # drop (Suc i) xs)"
    by simp
  then have f: "filter P xs = filter P (take i xs) @ xs ! i # filter P (drop (Suc i) xs)"
    using assms(2) by simp
  have "length (filter P xs) =
      length (filter P (take i xs) @ xs ! i # filter P (drop (Suc i) xs))"
    using f by (rule arg_cong)
  then show "length (filter P (take i xs)) < length (filter P xs)"
    by simp
  show "filter P xs ! length (filter P (take i xs)) = xs ! i"
    by (subst f) (simp only: nth_append_length)
qed

lemma filter_take_position_mono:
  assumes "i < j" "j \<le> length xs" "P (xs ! i)"
  shows "length (filter P (take i xs)) < length (filter P (take j xs))"
proof -
  have i: "i < length (take j xs)" using assms by simp
  have p: "P (take j xs ! i)" using assms by simp
  have "take i (take j xs) = take i xs" using assms by (simp add: min_def)
  with filter_nth_position(1) [of i "take j xs" P, OF i p] show ?thesis by simp
qed

text \<open>
  C10. The features of a returned collection stand in the order of their rows. There
  are as many features as rows that pass the test; the feature of such a row stands at
  the position that is the number of rows passing the test before it; and of two such
  rows, the earlier one has the smaller position.
\<close>

theorem addPolygons_keeps_row_order:
  assumes "geojsonStates parse data = Inr fc"
  shows "length (features fc) = length (filter (\<lambda>r. row_include r = Some ''y'') data) \<and>
         (\<forall>i < length data. row_include (data ! i) = Some ''y'' \<longrightarrow>
            length (filter (\<lambda>r. row_include r = Some ''y'') (take i data)) < length (features fc) \<and>
            row_feature parse (data ! i) =
              Some (features fc ! length (filter (\<lambda>r. row_include r = Some ''y'') (take i data)))) \<and>
         (\<forall>i j. i < j \<longrightarrow> j < length data \<longrightarrow>
            row_include (data ! i) = Some ''y'' \<longrightarrow> row_include (data ! j) = Some ''y'' \<longrightarrow>
            length (filter (\<lambda>r. row_include r = Some ''y'') (take i data)) <
            length (filter (\<lambda>r. row_include r = Some ''y'') (take j data)))"
proof (intro conjI allI impI)
  let ?P = "\<lambda>r. row_include r = Some ''y''"
  have eq: "map Some (features fc) = map (row_feature parse) (filter ?P data)"
    using geojsonStates_Inr(2) [OF assms] by (simp add: included_filter)
  then have "length (map Some (features fc)) = length (map (row_feature parse) (filter ?P data))"
    by simp
  then show len: "length (features fc) = length (filter ?P data)"
    by simp
  {
    fix i assume i: "i < length data" and y: "?P (data ! i)"
    let ?k = "length (filter ?P (take i data))"
    have k: "?k < length (filter ?P data)"
      using filter_nth_position(1) [of i data ?P, OF i y] .
    then show "?k < length (features fc)"
      by (simp add: len)
    have "map Some (features fc) ! ?k = map (row_feature parse) (filter ?P data) ! ?k"
      by (simp only: eq)
    then have "Some (features fc ! ?k) = row_feature parse (filter ?P data ! ?k)"
      using k by (simp add: len)
    then show "row_feature parse (data ! i) = Some (features fc ! ?k)"
      by (simp add: filter_nth_position(2) [of i data ?P, OF i y])
  }
  fix i j assume "i < j" "j < length data" "?P (data ! i)"
  then show "length (filter ?P (take i data)) < length (filter ?P (take j data))"
    by (intro filter_take_position_mono) simp_all
qed

lemma named_geojsonStates:
  "geojsonStates JSON_parse [named_state ''Utah'' ''y'', named_state ''Ohio'' ''n'', named_state ''Iowa'' ''y''] =
   Inr \<lparr>fc_type = ''FeatureCollection'', features = [named_feature ''Utah'', named_feature ''Iowa'']\<rparr>"
  by (simp add: geojsonStates_def included_def named_state_def ToString_def JSON_parse_square
      named_feature_def)

theorem addPolygons_keeps_row_order_witness:
  "length [named_feature ''Utah'', named_feature ''Iowa''] = 2 \<and>
   row_include ([named_state ''Utah'' ''y'', named_state ''Ohio'' ''n'', named_state ''Iowa'' ''y''] ! 0) = Some ''y'' \<and>
   row_include ([named_state ''Utah'' ''y'', named_state ''Ohio'' ''n'', named_state ''Iowa'' ''y''] ! 2) = Some ''y'' \<and>
   length (filter (\<lambda>r. row_include r = Some ''y'')
     (take 0 [named_state ''Utah'' ''y'', named_state ''Ohio'' ''n'', named_state ''Iowa'' ''y''])) = 0 \<and>
   length (filter (\<lambda>r. row_include r = Some ''y'')
     (take 2 [named_state ''Utah'' ''y'', named_state ''Ohio'' ''n'', named_state ''Iowa'' ''y''])) = 1 \<and>
   row_feature JSON_parse (named_state ''Utah'' ''y'') =
     Some ([named_feature ''Utah'', named_feature ''Iowa''] ! 0) \<and>
   row_feature JSON_parse (named_state ''Iowa'' ''y'') =
     Some ([named_feature ''Utah'', named_feature ''Iowa''] ! 1)"
proof -
  let ?t = "[named_state ''Utah'' ''y'', named_state ''Ohio'' ''n'', named_state ''Iowa'' ''y'']"
  have y: "row_include (?t ! 0) = Some ''y''" "row_include (?t ! 2) = Some ''y''"
    by (simp_all add: named_state_def)
  have k: "length (filter (\<lambda>r. row_include r = Some ''y'') (take 0 ?t)) = 0"
    "length (filter (\<lambda>r. row_include r = Some ''y'') (take 2 ?t)) = 1"
    by (simp_all add: named_state_def)
  have pos: "row_feature JSON_parse (?t ! i) =
        Some ([named_feature ''Utah'', named_feature ''Iowa''] !
          length (filter (\<lambda>r. row_include r = Some ''y'') (take i ?t)))"
    if "i < length ?t" "row_include (?t ! i) = Some ''y''" for i
    using addPolygons_keeps_row_order [OF named_geojsonStates] that by simp
  have "row_feature JSON_parse (named_state ''Utah'' ''y'') =
        Some ([named_feature ''Utah'', named_feature ''Iowa''] ! 0)"
    using pos [of 0] y(1) k(1) by simp
  moreover have "row_feature JSON_parse (named_state ''Iowa'' ''y'') =
        Some ([named_feature ''Utah'', named_feature ''Iowa''] ! 1)"
    using pos [of 2] y(2) k(2) by simp
  ultimately show ?thesis using y k by simp
qed

section \<open>The page after a callback\<close>

lemma detached_simps:
  "heap (detached s w) = heap w" "next_ref (detached s w) = next_ref w"
  "polygonLayer (detached s w) = polygonLayer w" "pointGroupLayer (detached s w) = pointGroupLayer w"
  "map_layers (detached s w) = (case s of None \<Rightarrow> map_layers w | Some l \<Rightarrow> removeAll l (map_layers w))"
  by (simp_all add: detached_def layer_remove_def split: option.splits)

lemma addPolygons_Inl:
  assumes "geojsonStates parse data = Inl e"
  shows "addPolygons parse data w = (Inl e, detached (polygonLayer w) w)"
  using assms by (simp add: addPolygons_def detached_def)

lemma addPolygons_Inr:
  assumes "geojsonStates parse data = Inr fc"
  shows "addPolygons parse data w =
     (Inr (), (detached (polygonLayer w) w)
        \<lparr>heap := (heap w)(next_ref w \<mapsto> GeoJSON (drawn fc)),
         next_ref := Suc (next_ref w),
         map_layers :=
           (if next_ref w \<in> set (map_layers (detached (polygonLayer w) w))
            then map_layers (detached (polygonLayer w) w)
            else map_layers (detached (polygonLayer w) w) @ [next_ref w]),
         polygonLayer := Some (next_ref w)\<rparr>)"
  using assms
  by (simp add: addPolygons_def detached_def L_geoJSON_def new_obj_def addTo_def layer_remove_def
      drawn_def Let_def split: option.splits)

lemma world_ok_iff:
  "world_ok w \<longleftrightarrow>
     distinct (map_layers w) \<and>
     (\<forall>l \<in> set (map_layers w). l < next_ref w) \<and>
     (\<forall>l \<in> set (map_layers w). is_GeoJSON (heap w) l \<longrightarrow> polygonLayer w = Some l) \<and>
     (\<forall>l \<in> set (map_layers w). is_LayerGroup (heap w) l \<longrightarrow> pointGroupLayer w = Some l) \<and>
     (\<forall>l. polygonLayer w = Some l \<longrightarrow> l < next_ref w \<and> is_GeoJSON (heap w) l) \<and>
     (\<forall>g. pointGroupLayer w = Some g \<longrightarrow>
        g < next_ref w \<and> is_LayerGroup (heap w) g \<and> (\<forall>m \<in> set (children (heap w) g). m < next_ref w))"
  by (auto simp: world_ok_def list_all_iff split: option.splits)

lemma world_ok_distinct: "world_ok w \<Longrightarrow> distinct (map_layers w)"
  unfolding world_ok_iff by blast

lemma world_ok_attached: "world_ok w \<Longrightarrow> l \<in> set (map_layers w) \<Longrightarrow> l < next_ref w"
  unfolding world_ok_iff by blast

lemma world_ok_polygon:
  "world_ok w \<Longrightarrow> l \<in> set (map_layers w) \<Longrightarrow> is_GeoJSON (heap w) l \<Longrightarrow> polygonLayer w = Some l"
  unfolding world_ok_iff by blast

lemma world_ok_group:
  "world_ok w \<Longrightarrow> l \<in> set (map_layers w) \<Longrightarrow> is_LayerGroup (heap w) l \<Longrightarrow> pointGroupLayer w = Some l"
  unfolding world_ok_iff by blast

lemma world_ok_polygonLayer:
  "world_ok w \<Longrightarrow> polygonLayer w = Some l \<Longrightarrow> l < next_ref w \<and> is_GeoJSON (heap w) l"
  unfolding world_ok_iff by blast

lemma world_ok_pointGroupLayer:
  "world_ok w \<Longrightarrow> pointGroupLayer w = Some g \<Longrightarrow>
     g < next_ref w \<and> is_LayerGroup (heap w) g \<and> (\<forall>m \<in> set (children (heap w) g). m < next_ref w)"
  unfolding world_ok_iff by blast

lemma kind_disjoint: "is_GeoJSON (heap w) l \<Longrightarrow> \<not> is_LayerGroup (heap w) l"
  by (auto simp: is_GeoJSON_def is_LayerGroup_def split: option.splits obj.splits)

lemma polygon_layers_detached:
  assumes "world_ok w"
  shows "polygon_layers (detached (polygonLayer w) w) = []"
proof (cases "polygonLayer w")
  case None
  with assms show ?thesis
    by (auto simp: world_ok_iff polygon_layers_def detached_def filter_empty_conv)
next
  case (Some l)
  with assms show ?thesis
    by (auto simp: world_ok_iff polygon_layers_def detached_def layer_remove_def filter_empty_conv
        is_GeoJSON_def)
qed

lemma point_layers_detached:
  assumes "world_ok w"
  shows "point_layers (detached (polygonLayer w) w) = point_layers w"
proof (cases "polygonLayer w")
  case None
  then show ?thesis by (simp add: detached_def)
next
  case (Some l)
  with assms have "\<not> is_LayerGroup (heap w) l"
    by (auto simp: world_ok_iff dest: kind_disjoint)
  then have "filter (is_LayerGroup (heap w)) (removeAll l (map_layers w)) =
      filter (is_LayerGroup (heap w)) (map_layers w)"
    by (induction "map_layers w") (auto simp: removeAll_filter_not_eq intro: filter_cong)
  with Some show ?thesis
    by (simp add: point_layers_def detached_def layer_remove_def)
qed

lemma fresh_not_attached:
  assumes "world_ok w"
  shows "next_ref w \<notin> set (map_layers (detached v w))"
  using assms by (auto simp: world_ok_iff detached_simps split: option.splits)

lemma attached_below:
  assumes "world_ok w" "l \<in> set (map_layers (detached v w))"
  shows "l < next_ref w"
proof -
  from assms(2) have "l \<in> set (map_layers w)"
    by (cases v) (auto simp: detached_def layer_remove_def)
  with assms(1) show ?thesis
    by (simp add: world_ok_iff)
qed

lemma is_GeoJSON_upd: "l \<noteq> n \<Longrightarrow> is_GeoJSON (h(n \<mapsto> x)) l = is_GeoJSON h l"
  by (simp add: is_GeoJSON_def)

lemma is_LayerGroup_upd: "l \<noteq> n \<Longrightarrow> is_LayerGroup (h(n \<mapsto> x)) l = is_LayerGroup h l"
  by (simp add: is_LayerGroup_def)

lemma filter_GeoJSON_upd:
  "n \<notin> set ls \<Longrightarrow> filter (is_GeoJSON (h(n \<mapsto> x))) ls = filter (is_GeoJSON h) ls"
  by (rule filter_cong) (auto simp: is_GeoJSON_def)

lemma filter_LayerGroup_upd:
  "n \<notin> set ls \<Longrightarrow> filter (is_LayerGroup (h(n \<mapsto> x))) ls = filter (is_LayerGroup h) ls"
  by (rule filter_cong) (auto simp: is_LayerGroup_def)

lemma markers_of_upd:
  "g \<noteq> n \<Longrightarrow> n \<notin> set (children h g) \<Longrightarrow> markers_of (h(n \<mapsto> x)) g = markers_of h g"
proof -
  assume g: "g \<noteq> n" and n: "n \<notin> set (children h g)"
  have c: "children (h(n \<mapsto> x)) g = children h g"
    using g by (simp add: children_def)
  have "map (h(n \<mapsto> x)) (children h g) = map h (children h g)"
    using n by (intro map_cong) auto
  then show ?thesis
    by (simp add: markers_of_def c)
qed

lemma point_layers_slot:
  assumes "world_ok w"
  shows "set (point_layers w) \<subseteq> set_option (pointGroupLayer w)"
proof
  fix g assume "g \<in> set (point_layers w)"
  then have "g \<in> set (map_layers w)" "is_LayerGroup (heap w) g"
    by (simp_all add: point_layers_def)
  with assms have "pointGroupLayer w = Some g" by (rule world_ok_group)
  then show "g \<in> set_option (pointGroupLayer w)" by simp
qed

text \<open>A successful \<open>addPolygons\<close>, from a state of the page.\<close>

lemma addPolygons_Inr_ok:
  assumes ok: "world_ok w" and fc: "geojsonStates parse data = Inr fc"
  shows "addPolygons parse data w =
     (Inr (), (detached (polygonLayer w) w)
        \<lparr>heap := (heap w)(next_ref w \<mapsto> GeoJSON (drawn fc)),
         next_ref := Suc (next_ref w),
         map_layers := map_layers (detached (polygonLayer w) w) @ [next_ref w],
         polygonLayer := Some (next_ref w)\<rparr>)"
  using fresh_not_attached [OF ok] by (simp add: addPolygons_Inr [OF fc])

lemma addPolygons_Inr_polygon_layers:
  assumes ok: "world_ok w" and fc: "geojsonStates parse data = Inr fc"
  shows "polygon_layers (snd (addPolygons parse data w)) = [next_ref w]"
    and "rendered_polygons (snd (addPolygons parse data w)) = [drawn fc]"
proof -
  let ?d = "detached (polygonLayer w) w"
  have "filter (is_GeoJSON ((heap w)(next_ref w \<mapsto> GeoJSON (drawn fc)))) (map_layers ?d) =
        filter (is_GeoJSON (heap w)) (map_layers ?d)"
    using fresh_not_attached [OF ok] by (rule filter_GeoJSON_upd)
  also have "\<dots> = polygon_layers ?d"
    by (simp add: polygon_layers_def detached_simps)
  also have "\<dots> = []"
    using ok by (rule polygon_layers_detached)
  finally show 1: "polygon_layers (snd (addPolygons parse data w)) = [next_ref w]"
    by (simp add: addPolygons_Inr_ok [OF ok fc] polygon_layers_def is_GeoJSON_def)
  show "rendered_polygons (snd (addPolygons parse data w)) = [drawn fc]"
    unfolding rendered_polygons_def 1
    by (simp add: addPolygons_Inr_ok [OF ok fc] polygons_of_def)
qed

lemma addPolygons_Inl_polygon_layers:
  assumes ok: "world_ok w" and fc: "geojsonStates parse data = Inl e"
  shows "polygon_layers (snd (addPolygons parse data w)) = []"
    and "rendered_polygons (snd (addPolygons parse data w)) = []"
  using polygon_layers_detached [OF ok]
  by (simp_all add: addPolygons_Inl [OF fc] rendered_polygons_def)

lemma rendered_points_eqI:
  assumes "point_layers w' = point_layers w"
    and "\<And>g. g \<in> set (point_layers w) \<Longrightarrow> markers_of (heap w') g = markers_of (heap w) g"
  shows "rendered_points w' = rendered_points w"
  using assms by (simp add: rendered_points_def)

lemma markers_of_fresh:
  assumes ok: "world_ok w" and g: "g \<in> set (point_layers w)"
  shows "markers_of ((heap w)(next_ref w \<mapsto> x)) g = markers_of (heap w) g"
proof -
  from g point_layers_slot [OF ok] have "pointGroupLayer w = Some g" by auto
  with ok have "g < next_ref w" "\<forall>m \<in> set (children (heap w) g). m < next_ref w"
    using world_ok_pointGroupLayer by blast+
  then have "g \<noteq> next_ref w" "next_ref w \<notin> set (children (heap w) g)" by auto
  then show ?thesis by (rule markers_of_upd)
qed

lemma addPolygons_rendered_points:
  assumes ok: "world_ok w"
  shows "rendered_points (snd (addPolygons parse data w)) = rendered_points w"
proof (cases "geojsonStates parse data")
  case (Inl e)
  have "rendered_points (detached (polygonLayer w) w) = rendered_points w"
    by (rule rendered_points_eqI) (simp_all add: point_layers_detached [OF ok] detached_simps)
  then show ?thesis
    by (simp add: addPolygons_Inl [OF Inl])
next
  case (Inr fc)
  let ?d = "detached (polygonLayer w) w"
  let ?w' = "snd (addPolygons parse data w)"
  have hp: "heap ?w' = (heap w)(next_ref w \<mapsto> GeoJSON (drawn fc))"
    and ml: "map_layers ?w' = map_layers ?d @ [next_ref w]"
    by (simp_all add: addPolygons_Inr_ok [OF ok Inr])
  have fr: "next_ref w \<notin> set (map_layers ?d)"
    by (rule fresh_not_attached [OF ok])
  have "point_layers ?w' = filter (is_LayerGroup (heap ?w')) (map_layers ?d)"
    unfolding point_layers_def ml hp by (simp add: is_LayerGroup_def)
  also have "\<dots> = filter (is_LayerGroup (heap w)) (map_layers ?d)"
    unfolding hp using fr by (rule filter_LayerGroup_upd)
  also have "\<dots> = point_layers ?d"
    by (simp add: point_layers_def detached_simps)
  also have "\<dots> = point_layers w"
    by (rule point_layers_detached [OF ok])
  finally have pl: "point_layers ?w' = point_layers w" .
  show ?thesis
    by (rule rendered_points_eqI [OF pl]) (simp add: hp markers_of_fresh [OF ok])
qed

lemma world_okI:
  assumes "distinct (map_layers w)"
    and "\<And>l. l \<in> set (map_layers w) \<Longrightarrow> l < next_ref w"
    and "\<And>l. l \<in> set (map_layers w) \<Longrightarrow> is_GeoJSON (heap w) l \<Longrightarrow> polygonLayer w = Some l"
    and "\<And>l. l \<in> set (map_layers w) \<Longrightarrow> is_LayerGroup (heap w) l \<Longrightarrow> pointGroupLayer w = Some l"
    and "\<And>l. polygonLayer w = Some l \<Longrightarrow> l < next_ref w \<and> is_GeoJSON (heap w) l"
    and "\<And>g. pointGroupLayer w = Some g \<Longrightarrow>
           g < next_ref w \<and> is_LayerGroup (heap w) g \<and> (\<forall>m \<in> set (children (heap w) g). m < next_ref w)"
  shows "world_ok w"
  unfolding world_ok_iff using assms by blast

lemma detached_subset: "set (map_layers (detached v w)) \<subseteq> set (map_layers w)"
  by (cases v) (auto simp: detached_def layer_remove_def)

lemma detached_distinct: "distinct (map_layers w) \<Longrightarrow> distinct (map_layers (detached v w))"
  by (cases v) (auto simp: detached_def layer_remove_def distinct_removeAll)

lemma children_upd: "g \<noteq> n \<Longrightarrow> children (h(n \<mapsto> x)) g = children h g"
  by (simp add: children_def)

lemma addPolygons_world_ok:
  assumes ok: "world_ok w"
  shows "world_ok (snd (addPolygons parse data w))"
proof (cases "geojsonStates parse data")
  case (Inl e)
  let ?d = "detached (polygonLayer w) w"
  have "world_ok ?d"
  proof (rule world_okI)
    show "distinct (map_layers ?d)"
      using world_ok_distinct [OF ok] by (rule detached_distinct)
    show "l < next_ref ?d" if "l \<in> set (map_layers ?d)" for l
      using attached_below [OF ok that] by (simp add: detached_simps)
    show "polygonLayer ?d = Some l" if "l \<in> set (map_layers ?d)" "is_GeoJSON (heap ?d) l" for l
    proof -
      from that have "l \<in> set (polygon_layers ?d)" by (simp add: polygon_layers_def)
      then show ?thesis by (simp add: polygon_layers_detached [OF ok])
    qed
    show "pointGroupLayer ?d = Some l" if "l \<in> set (map_layers ?d)" "is_LayerGroup (heap ?d) l" for l
      using that detached_subset [of "polygonLayer w" w] world_ok_group [OF ok, of l]
      by (auto simp: detached_simps)
    show "l < next_ref ?d \<and> is_GeoJSON (heap ?d) l" if "polygonLayer ?d = Some l" for l
      using that world_ok_polygonLayer [OF ok, of l] by (simp add: detached_simps)
    show "g < next_ref ?d \<and> is_LayerGroup (heap ?d) g \<and>
        (\<forall>m \<in> set (children (heap ?d) g). m < next_ref ?d)" if "pointGroupLayer ?d = Some g" for g
      using that world_ok_pointGroupLayer [OF ok, of g] by (simp add: detached_simps)
  qed
  then show ?thesis
    by (simp add: addPolygons_Inl [OF Inl])
next
  case (Inr fc)
  let ?d = "detached (polygonLayer w) w"
  let ?n = "next_ref w"
  let ?w' = "snd (addPolygons parse data w)"
  have hp: "heap ?w' = (heap w)(?n \<mapsto> GeoJSON (drawn fc))"
    and ml: "map_layers ?w' = map_layers ?d @ [?n]"
    and nr: "next_ref ?w' = Suc ?n"
    and pl: "polygonLayer ?w' = Some ?n"
    and pg: "pointGroupLayer ?w' = pointGroupLayer w"
    by (simp_all add: addPolygons_Inr_ok [OF ok Inr] detached_simps)
  have fr: "?n \<notin> set (map_layers ?d)"
    by (rule fresh_not_attached [OF ok])
  show ?thesis
  proof (rule world_okI)
    show "distinct (map_layers ?w')"
      unfolding ml using fr detached_distinct [OF world_ok_distinct [OF ok]] by simp
    show "l < next_ref ?w'" if "l \<in> set (map_layers ?w')" for l
      using that attached_below [OF ok, of l "polygonLayer w"] unfolding ml nr by auto
    show "polygonLayer ?w' = Some l" if "l \<in> set (map_layers ?w')" "is_GeoJSON (heap ?w') l" for l
    proof (cases "l = ?n")
      case True
      then show ?thesis by (simp add: pl)
    next
      case False
      with that have "l \<in> set (map_layers ?d)" "is_GeoJSON (heap w) l"
        unfolding ml hp by (simp_all add: is_GeoJSON_upd)
      then have "l \<in> set (polygon_layers ?d)"
        by (simp add: polygon_layers_def detached_simps)
      then show ?thesis by (simp add: polygon_layers_detached [OF ok])
    qed
    show "pointGroupLayer ?w' = Some l" if "l \<in> set (map_layers ?w')" "is_LayerGroup (heap ?w') l" for l
    proof (cases "l = ?n")
      case True
      with that(2) show ?thesis by (simp add: hp is_LayerGroup_def)
    next
      case False
      with that have "l \<in> set (map_layers ?d)" "is_LayerGroup (heap w) l"
        unfolding ml hp by (simp_all add: is_LayerGroup_upd)
      with detached_subset [of "polygonLayer w" w] world_ok_group [OF ok, of l]
      show ?thesis by (auto simp: pg)
    qed
    show "l < next_ref ?w' \<and> is_GeoJSON (heap ?w') l" if "polygonLayer ?w' = Some l" for l
      using that unfolding pl nr hp by (auto simp: is_GeoJSON_def)
    show "g < next_ref ?w' \<and> is_LayerGroup (heap ?w') g \<and>
        (\<forall>m \<in> set (children (heap ?w') g). m < next_ref ?w')" if "pointGroupLayer ?w' = Some g" for g
    proof -
      from that have "pointGroupLayer w = Some g" by (simp add: pg)
      from world_ok_pointGroupLayer [OF ok this]
      have g: "g < ?n" "is_LayerGroup (heap w) g" "\<forall>m \<in> set (children (heap w) g). m < ?n"
        by blast+
      then have "g \<noteq> ?n" by simp
      then show ?thesis
        unfolding nr hp using g by (auto simp: is_LayerGroup_upd children_upd)
    qed
  qed
qed

lemma addPoints_iteration:
  assumes g: "heap w g = Some (LayerGroup ms)" and lt: "g < next_ref w"
  shows "setIcon (next_ref w)
           (AwesomeMarkers_icon
              \<lparr>icon = ''info-sign'', iconColor = ''white'', markerColor = getColor (category r),
               prefix = ''glyphicon'', extraClasses = ''fa-rotate-0''\<rparr>)
           (bindPopup (next_ref w)
              (''<h2>'' @ ToString (location r) @ ''</h2>'' @ ToString (category r) @
               '' regulations at '' @ ToString (level r) @ '' level'')
              (addTo_group (next_ref w) g (snd (L_marker (lat r, long r) w)))) =
         w\<lparr>heap := (heap w)(next_ref w \<mapsto> Marker (row_marker r), g \<mapsto> LayerGroup (ms @ [next_ref w])),
           next_ref := Suc (next_ref w)\<rparr>"
proof -
  from lt have ne: "g \<noteq> next_ref w" by simp
  let ?w1 = "snd (L_marker (lat r, long r) w)"
  have w1: "?w1 = w\<lparr>heap := (heap w)(next_ref w \<mapsto>
                Marker \<lparr>latlng = (lat r, long r), marker_popup = None, marker_icon = None\<rparr>),
              next_ref := Suc (next_ref w)\<rparr>"
    by (simp add: L_marker_def new_obj_def)
  have w2: "addTo_group (next_ref w) g ?w1 =
      ?w1\<lparr>heap := (heap ?w1)(g \<mapsto> LayerGroup (ms @ [next_ref w]))\<rparr>"
    using g ne by (simp add: addTo_group_def w1)
  show ?thesis
    unfolding w2 unfolding w1 using ne
    by (simp add: bindPopup_def setIcon_def AwesomeMarkers_icon_def row_marker_def fun_upd_twist)
qed

lemma addPoints_loop_step:
  assumes g: "heap w g = Some (LayerGroup ms)" and lt: "g < next_ref w"
  shows "addPoints_loop (r # data) g w =
     addPoints_loop data g
       (w\<lparr>heap := (heap w)(next_ref w \<mapsto> Marker (row_marker r), g \<mapsto> LayerGroup (ms @ [next_ref w])),
          next_ref := Suc (next_ref w)\<rparr>)"
proof -
  have n: "fst (L_marker (lat r, long r) w) = next_ref w"
    by (simp add: L_marker_def new_obj_def)
  show ?thesis
    unfolding addPoints_iteration [OF assms, of r, symmetric]
    by (simp add: Let_def case_prod_unfold n)
qed

lemma addPoints_loop_char:
  assumes "heap w g = Some (LayerGroup ms)" and "g < next_ref w"
  shows "addPoints_loop data g w =
     w\<lparr>heap := points_heap (heap w) g ms (next_ref w) data, next_ref := next_ref w + length data\<rparr>"
  using assms
proof (induction data arbitrary: w ms)
  case Nil
  have "points_heap (heap w) g ms (next_ref w) [] = heap w"
    using Nil by (auto simp: points_heap_def)
  then show ?case by simp
next
  case (Cons r data)
  let ?n = "next_ref w"
  let ?w4 = "w\<lparr>heap := (heap w)(?n \<mapsto> Marker (row_marker r), g \<mapsto> LayerGroup (ms @ [?n])),
               next_ref := Suc ?n\<rparr>"
  have ne: "g \<noteq> ?n" using Cons.prems by simp
  have "addPoints_loop (r # data) g w = addPoints_loop data g ?w4"
    using Cons.prems by (rule addPoints_loop_step)
  also have "\<dots> = ?w4\<lparr>heap := points_heap (heap ?w4) g (ms @ [?n]) (next_ref ?w4) data,
                        next_ref := next_ref ?w4 + length data\<rparr>"
    by (rule Cons.IH) (use Cons.prems in simp_all)
  also have "points_heap (heap ?w4) g (ms @ [?n]) (next_ref ?w4) data =
             points_heap (heap w) g ms ?n (r # data)"
  proof (rule ext)
    fix x
    show "points_heap (heap ?w4) g (ms @ [?n]) (next_ref ?w4) data x =
          points_heap (heap w) g ms ?n (r # data) x"
    proof -
      have upt: "[?n..<?n + length (r # data)] = ?n # [Suc ?n..<Suc ?n + length data]"
        by (subst upt_rec) simp
      have nth: "(r # data) ! (x - ?n) = data ! (x - Suc ?n)" if "Suc ?n \<le> x"
        using that by (simp add: nth_Cons' Suc_diff_le)
      consider "x = g" | "x \<noteq> g" "x = ?n" | "x \<noteq> g" "Suc ?n \<le> x" | "x \<noteq> g" "x < ?n"
        by linarith
      then show ?thesis
      proof cases
        case 1
        then show ?thesis
          unfolding points_heap_def upt by simp
      next
        case 2
        then show ?thesis
          unfolding points_heap_def by simp
      next
        case 3
        then show ?thesis
          unfolding points_heap_def using nth ne by simp
      next
        case 4
        then show ?thesis
          unfolding points_heap_def using ne by simp
      qed
    qed
  qed
  finally show ?case by simp
qed

lemma points_heap_below: "r < n \<Longrightarrow> points_heap (h(n \<mapsto> x)) n ms (Suc n) data r = h r"
  by (simp add: points_heap_def)

lemma points_heap_group:
  "points_heap h g ms n data g = Some (LayerGroup (ms @ [n..<n + length data]))"
  by (simp add: points_heap_def)

lemma points_heap_marker:
  "i < length data \<Longrightarrow> g < n \<Longrightarrow> points_heap h g ms n data (n + i) = Some (Marker (row_marker (data ! i)))"
  by (simp add: points_heap_def)

lemma addPoints_char:
  "addPoints data w =
     (detached (pointGroupLayer w) w)
       \<lparr>heap := points_heap ((heap w)(next_ref w \<mapsto> LayerGroup [])) (next_ref w) [] (Suc (next_ref w)) data,
        next_ref := Suc (next_ref w) + length data,
        map_layers :=
          (if next_ref w \<in> set (map_layers (detached (pointGroupLayer w) w))
           then map_layers (detached (pointGroupLayer w) w)
           else map_layers (detached (pointGroupLayer w) w) @ [next_ref w]),
        pointGroupLayer := Some (next_ref w)\<rparr>"
proof -
  let ?d = "detached (pointGroupLayer w) w"
  let ?n = "next_ref w"
  let ?w3 = "(addTo ?n (snd (L_layerGroup ?d)))\<lparr>pointGroupLayer := Some ?n\<rparr>"
  have d: "(case pointGroupLayer w of None \<Rightarrow> w | Some l \<Rightarrow> layer_remove l w) = ?d"
    by (simp add: detached_def)
  have fst: "fst (L_layerGroup ?d) = ?n"
    by (simp add: L_layerGroup_def new_obj_def detached_simps)
  have hp: "heap ?w3 = (heap w)(?n \<mapsto> LayerGroup [])" and nr: "next_ref ?w3 = Suc ?n"
    by (simp_all add: L_layerGroup_def new_obj_def addTo_def detached_simps)
  have "addPoints data w = addPoints_loop data ?n ?w3"
    by (simp add: addPoints_def d Let_def case_prod_unfold fst)
  also have "\<dots> = ?w3\<lparr>heap := points_heap (heap ?w3) ?n [] (next_ref ?w3) data,
                        next_ref := next_ref ?w3 + length data\<rparr>"
    by (rule addPoints_loop_char) (simp_all add: hp nr)
  finally show ?thesis
    unfolding hp nr
    by (simp add: L_layerGroup_def new_obj_def addTo_def detached_simps)
qed

lemma addPoints_fields:
  "heap (addPoints data w) =
     points_heap ((heap w)(next_ref w \<mapsto> LayerGroup [])) (next_ref w) [] (Suc (next_ref w)) data"
  "next_ref (addPoints data w) = Suc (next_ref w) + length data"
  "pointGroupLayer (addPoints data w) = Some (next_ref w)"
  "polygonLayer (addPoints data w) = polygonLayer w"
  "map_layers (addPoints data w) =
     (if next_ref w \<in> set (map_layers (detached (pointGroupLayer w) w))
      then map_layers (detached (pointGroupLayer w) w)
      else map_layers (detached (pointGroupLayer w) w) @ [next_ref w])"
  by (simp_all add: addPoints_char detached_simps)

lemma addPoints_children:
  "children (heap (addPoints data w)) (next_ref w) = [Suc (next_ref w)..<Suc (next_ref w) + length data]"
  by (simp add: addPoints_fields children_def points_heap_group)

lemma addPoints_markers_of:
  "markers_of (heap (addPoints data w)) (next_ref w) = map (\<lambda>r. Some (Marker (row_marker r))) data"
proof (rule nth_equalityI)
  show "length (markers_of (heap (addPoints data w)) (next_ref w)) =
      length (map (\<lambda>r. Some (Marker (row_marker r))) data)"
    by (simp add: markers_of_def addPoints_children del: upt_Suc)
next
  fix i assume "i < length (markers_of (heap (addPoints data w)) (next_ref w))"
  then have i: "i < length data"
    by (simp add: markers_of_def addPoints_children del: upt_Suc)
  then have "markers_of (heap (addPoints data w)) (next_ref w) ! i =
      heap (addPoints data w) (Suc (next_ref w) + i)"
    unfolding markers_of_def addPoints_children by (simp del: upt_Suc)
  also have "\<dots> = Some (Marker (row_marker (data ! i)))"
    unfolding addPoints_fields using i by (intro points_heap_marker) simp_all
  finally show "markers_of (heap (addPoints data w)) (next_ref w) ! i =
      map (\<lambda>r. Some (Marker (row_marker r))) data ! i"
    using i by simp
qed

lemma addPoints_attached: "next_ref w \<in> set (map_layers (addPoints data w))"
  by (simp add: addPoints_fields)

lemma point_layers_detached_points:
  assumes "world_ok w"
  shows "point_layers (detached (pointGroupLayer w) w) = []"
proof (cases "pointGroupLayer w")
  case None
  have "l \<notin> set (point_layers w)" for l
    using point_layers_slot [OF assms] None by auto
  then have "point_layers w = []" by (cases "point_layers w") auto
  with None show ?thesis by (simp add: detached_def)
next
  case (Some g)
  have "\<not> (l \<in> set (removeAll g (map_layers w)) \<and> is_LayerGroup (heap w) l)" for l
    using world_ok_group [OF assms, of l] Some by auto
  then have "filter (is_LayerGroup (heap w)) (removeAll g (map_layers w)) = []"
    unfolding filter_empty_conv by blast
  with Some show ?thesis
    by (simp add: point_layers_def detached_def layer_remove_def)
qed

lemma polygon_layers_detached_points:
  assumes "world_ok w"
  shows "polygon_layers (detached (pointGroupLayer w) w) = polygon_layers w"
proof (cases "pointGroupLayer w")
  case None
  then show ?thesis by (simp add: detached_def)
next
  case (Some g)
  from world_ok_pointGroupLayer [OF assms Some] have "is_LayerGroup (heap w) g" by blast
  then have "\<not> is_GeoJSON (heap w) g"
    using kind_disjoint by blast
  then have "filter (is_GeoJSON (heap w)) (removeAll g (map_layers w)) =
      filter (is_GeoJSON (heap w)) (map_layers w)"
    by (induction "map_layers w") (auto simp: removeAll_filter_not_eq intro: filter_cong)
  with Some show ?thesis
    by (simp add: polygon_layers_def detached_def layer_remove_def)
qed

lemma addPoints_heap_below:
  "r < next_ref w \<Longrightarrow> heap (addPoints data w) r = heap w r"
  by (simp add: addPoints_fields points_heap_below)

lemma addPoints_heap_group:
  "heap (addPoints data w) (next_ref w) =
     Some (LayerGroup [Suc (next_ref w)..<Suc (next_ref w) + length data])"
  by (simp add: addPoints_fields points_heap_group)

lemma addPoints_map_layers_ok:
  assumes "world_ok w"
  shows "map_layers (addPoints data w) = map_layers (detached (pointGroupLayer w) w) @ [next_ref w]"
  using fresh_not_attached [OF assms] by (simp add: addPoints_fields)

lemma is_GeoJSON_agree: "h' l = h l \<Longrightarrow> is_GeoJSON h' l = is_GeoJSON h l"
  by (simp add: is_GeoJSON_def)

lemma is_LayerGroup_agree: "h' l = h l \<Longrightarrow> is_LayerGroup h' l = is_LayerGroup h l"
  by (simp add: is_LayerGroup_def)

lemma polygons_of_agree: "h' l = h l \<Longrightarrow> polygons_of h' l = polygons_of h l"
  by (simp add: polygons_of_def)

lemma addPoints_point_layers:
  assumes ok: "world_ok w"
  shows "point_layers (addPoints data w) = [next_ref w]"
    and "rendered_points (addPoints data w) = [map (\<lambda>r. Some (Marker (row_marker r))) data]"
proof -
  let ?d = "detached (pointGroupLayer w) w"
  let ?w' = "addPoints data w"
  have "filter (is_LayerGroup (heap ?w')) (map_layers ?d) = filter (is_LayerGroup (heap w)) (map_layers ?d)"
  proof (rule filter_cong [OF refl])
    fix l assume "l \<in> set (map_layers ?d)"
    then have "l < next_ref w" by (rule attached_below [OF ok])
    then show "is_LayerGroup (heap ?w') l = is_LayerGroup (heap w) l"
      by (intro is_LayerGroup_agree addPoints_heap_below)
  qed
  also have "\<dots> = point_layers ?d"
    by (simp add: point_layers_def detached_simps)
  also have "\<dots> = []"
    by (rule point_layers_detached_points [OF ok])
  finally show 1: "point_layers ?w' = [next_ref w]"
    unfolding point_layers_def addPoints_map_layers_ok [OF ok]
    by (simp add: is_LayerGroup_def addPoints_heap_group)
  show "rendered_points ?w' = [map (\<lambda>r. Some (Marker (row_marker r))) data]"
    unfolding rendered_points_def 1 by (simp add: addPoints_markers_of)
qed

lemma addPoints_polygon_layers:
  assumes ok: "world_ok w"
  shows "polygon_layers (addPoints data w) = polygon_layers w"
    and "rendered_polygons (addPoints data w) = rendered_polygons w"
proof -
  let ?d = "detached (pointGroupLayer w) w"
  let ?w' = "addPoints data w"
  have "polygon_layers ?w' = filter (is_GeoJSON (heap ?w')) (map_layers ?d)"
    unfolding polygon_layers_def addPoints_map_layers_ok [OF ok]
    by (simp add: is_GeoJSON_def addPoints_heap_group)
  also have "\<dots> = filter (is_GeoJSON (heap w)) (map_layers ?d)"
  proof (rule filter_cong [OF refl])
    fix l assume "l \<in> set (map_layers ?d)"
    then have "l < next_ref w" by (rule attached_below [OF ok])
    then show "is_GeoJSON (heap ?w') l = is_GeoJSON (heap w) l"
      by (intro is_GeoJSON_agree addPoints_heap_below)
  qed
  also have "\<dots> = polygon_layers ?d"
    by (simp add: polygon_layers_def detached_simps)
  also have "\<dots> = polygon_layers w"
    by (rule polygon_layers_detached_points [OF ok])
  finally show 1: "polygon_layers ?w' = polygon_layers w" .
  have "polygons_of (heap ?w') l = polygons_of (heap w) l" if "l \<in> set (polygon_layers w)" for l
  proof -
    from that have "l \<in> set (map_layers w)" by (simp add: polygon_layers_def)
    then have "l < next_ref w" by (rule world_ok_attached [OF ok])
    then show ?thesis by (intro polygons_of_agree addPoints_heap_below)
  qed
  then show "rendered_polygons ?w' = rendered_polygons w"
    unfolding rendered_polygons_def 1 by simp
qed

lemma addPoints_world_ok:
  assumes ok: "world_ok w"
  shows "world_ok (addPoints data w)"
proof (rule world_okI)
  let ?d = "detached (pointGroupLayer w) w"
  let ?n = "next_ref w"
  let ?w' = "addPoints data w"
  note ml = addPoints_map_layers_ok [OF ok, of data]
  have fr: "?n \<notin> set (map_layers ?d)"
    by (rule fresh_not_attached [OF ok])
  have below: "l < ?n" if "l \<in> set (map_layers ?d)" for l
    using that by (rule attached_below [OF ok])
  show "distinct (map_layers ?w')"
    unfolding ml using fr detached_distinct [OF world_ok_distinct [OF ok]] by simp
  show "l < next_ref ?w'" if "l \<in> set (map_layers ?w')" for l
    using that below [of l] unfolding ml by (auto simp: addPoints_fields)
  show "polygonLayer ?w' = Some l" if "l \<in> set (map_layers ?w')" "is_GeoJSON (heap ?w') l" for l
  proof (cases "l = ?n")
    case True
    with that(2) show ?thesis by (simp add: is_GeoJSON_def addPoints_heap_group)
  next
    case False
    with that(1) have l: "l \<in> set (map_layers ?d)" unfolding ml by simp
    then have "heap ?w' l = heap w l" by (intro addPoints_heap_below below)
    with that(2) have "is_GeoJSON (heap w) l" by (simp add: is_GeoJSON_def)
    moreover from l detached_subset have "l \<in> set (map_layers w)" by blast
    ultimately have "polygonLayer w = Some l" by (intro world_ok_polygon [OF ok])
    then show ?thesis by (simp add: addPoints_fields)
  qed
  show "pointGroupLayer ?w' = Some l" if "l \<in> set (map_layers ?w')" "is_LayerGroup (heap ?w') l" for l
  proof (cases "l = ?n")
    case True
    then show ?thesis by (simp add: addPoints_fields)
  next
    case False
    with that(1) have l: "l \<in> set (map_layers ?d)" unfolding ml by simp
    then have "heap ?w' l = heap w l" by (intro addPoints_heap_below below)
    with that(2) have "is_LayerGroup (heap w) l" by (simp add: is_LayerGroup_def)
    with l have "l \<in> set (point_layers ?d)"
      by (simp add: point_layers_def detached_simps)
    then show ?thesis by (simp add: point_layers_detached_points [OF ok])
  qed
  show "l < next_ref ?w' \<and> is_GeoJSON (heap ?w') l" if "polygonLayer ?w' = Some l" for l
  proof -
    from that have "polygonLayer w = Some l" by (simp add: addPoints_fields)
    from world_ok_polygonLayer [OF ok this] have l: "l < ?n" "is_GeoJSON (heap w) l" by blast+
    then have "heap ?w' l = heap w l" by (intro addPoints_heap_below)
    with l show ?thesis by (simp add: is_GeoJSON_def addPoints_fields(2))
  qed
  show "g < next_ref ?w' \<and> is_LayerGroup (heap ?w') g \<and>
      (\<forall>m \<in> set (children (heap ?w') g). m < next_ref ?w')" if "pointGroupLayer ?w' = Some g" for g
  proof -
    from that have g: "g = ?n" by (simp add: addPoints_fields)
    show ?thesis
      unfolding g addPoints_children
      by (simp add: addPoints_fields(2) is_LayerGroup_def addPoints_heap_group del: upt_Suc)
  qed
qed

section \<open>The callbacks on the page\<close>

lemma init_world_fields:
  "heap init_world = [0 \<mapsto> basemap]" "next_ref init_world = 1" "map_layers init_world = [0]"
  "polygonLayer init_world = None" "pointGroupLayer init_world = None"
  by (simp_all add: init_world_def new_obj_def addTo_def)

lemma init_world_ok: "world_ok init_world"
  by (simp add: world_ok_def init_world_fields is_GeoJSON_def is_LayerGroup_def basemap_def)

lemma init_world_shows_nothing: "rendered_polygons init_world = []" "rendered_points init_world = []"
  by (simp_all add: rendered_polygons_def rendered_points_def polygon_layers_def point_layers_def
      init_world_fields is_GeoJSON_def is_LayerGroup_def basemap_def)

lemma addPolygons_fst:
  "fst (addPolygons parse data w) = (case geojsonStates parse data of Inl e \<Rightarrow> Inl e | Inr fc \<Rightarrow> Inr ())"
  by (cases "geojsonStates parse data") (simp_all add: addPolygons_Inl addPolygons_Inr)

lemma geojsonStates_Inl_iff:
  "geojsonStates parse data = Inl SyntaxError \<longleftrightarrow>
     (\<exists>r \<in> set data. row_include r = Some ''y'' \<and> parse (ToString (row_geometry r)) = None)"
  by (auto simp: geojsonStates_Inl list_all_iff included_def)

text \<open>
  C2, as the script has it. The build throws exactly when the geometry of some row
  whose \<^verbatim>\<open>include\<close> is \<^verbatim>\<open>y\<close> does not parse, and what it throws is the parser's
  SyntaxError. Then nothing is built: no layer object is made, nothing is attached to the
  map (the layer \<^verbatim>\<open>polygonLayer\<close> held is detached), and the map shows no polygons. The
  geometry of a row that does not pass the test is never parsed and cannot fail the
  build.
\<close>

theorem addPolygons_fails_iff_included_geometry_malformed:
  "((\<exists>r \<in> set data. row_include r = Some ''y'' \<and> parse (ToString (row_geometry r)) = None) \<longleftrightarrow>
      geojsonStates parse data = Inl SyntaxError) \<and>
   (geojsonStates parse data = Inl SyntaxError \<longrightarrow>
      addPolygons parse data w = (Inl SyntaxError, detached (polygonLayer w) w) \<and>
      heap (snd (addPolygons parse data w)) = heap w \<and>
      next_ref (snd (addPolygons parse data w)) = next_ref w \<and>
      set (map_layers (snd (addPolygons parse data w))) \<subseteq> set (map_layers w) \<and>
      (world_ok w \<longrightarrow> rendered_polygons (snd (addPolygons parse data w)) = [])) \<and>
   (\<forall>e. geojsonStates parse data = Inl e \<longrightarrow> e = SyntaxError)"
proof (intro conjI impI allI)
  show "(\<exists>r \<in> set data. row_include r = Some ''y'' \<and> parse (ToString (row_geometry r)) = None) \<longleftrightarrow>
      geojsonStates parse data = Inl SyntaxError"
    by (simp add: geojsonStates_Inl_iff)
next
  assume f: "geojsonStates parse data = Inl SyntaxError"
  show "addPolygons parse data w = (Inl SyntaxError, detached (polygonLayer w) w)"
    using f by (rule addPolygons_Inl)
  show "heap (snd (addPolygons parse data w)) = heap w"
    by (simp add: addPolygons_Inl [OF f] detached_simps)
  show "next_ref (snd (addPolygons parse data w)) = next_ref w"
    by (simp add: addPolygons_Inl [OF f] detached_simps)
  show "set (map_layers (snd (addPolygons parse data w))) \<subseteq> set (map_layers w)"
    by (simp add: addPolygons_Inl [OF f] detached_subset)
  show "rendered_polygons (snd (addPolygons parse data w)) = []" if "world_ok w"
    using that f by (rule addPolygons_Inl_polygon_layers(2))
next
  fix e assume "geojsonStates parse data = Inl e"
  then show "e = SyntaxError" by (simp add: geojsonStates_Inl)
qed

lemma bad_geojsonStates:
  "geojsonStates JSON_parse [example_state ''y'' example_square, example_state ''y'' ''not json''] =
     Inl SyntaxError"
  by (simp add: geojsonStates_def included_def example_state_def ToString_def JSON_parse_square
      JSON_parse_not_json)

text \<open>A row that passes the test and has no \<^verbatim>\<open>geometry\<close> column fails the build too.\<close>

lemma missing_geometry_fails:
  "geojsonStates JSON_parse [(example_state ''y'' example_square)\<lparr>row_geometry := None\<rparr>] =
     Inl SyntaxError"
  by (simp add: geojsonStates_def included_def example_state_def ToString_def JSON_parse_undefined)

theorem addPolygons_fails_iff_included_geometry_malformed_witness:
  "(\<exists>r \<in> set [example_state ''y'' example_square, example_state ''y'' ''not json''].
      row_include r = Some ''y'' \<and> JSON_parse (ToString (row_geometry r)) = None) \<and>
   addPolygons JSON_parse [example_state ''y'' example_square, example_state ''y'' ''not json''] init_world =
     (Inl SyntaxError, init_world) \<and>
   rendered_polygons
     (snd (addPolygons JSON_parse [example_state ''y'' example_square, example_state ''y'' ''not json'']
        init_world)) = []"
  using addPolygons_fails_iff_included_geometry_malformed
    [of "[example_state ''y'' example_square, example_state ''y'' ''not json'']" JSON_parse init_world]
    bad_geojsonStates init_world_ok
  by (simp add: detached_def init_world_fields init_world_shows_nothing)

text \<open>
  C2, as stated, fails: a table whose one row has \<^verbatim>\<open>include\<close> \<^verbatim>\<open>n\<close> and a geometry
  that is not JSON builds; the collection is made, with no feature, and its layer is on
  the map.
\<close>

theorem excluded_row_with_malformed_geometry_builds:
  "JSON_parse (ToString (row_geometry (example_state ''n'' ''not json''))) = None \<and>
   geojsonStates JSON_parse [example_state ''n'' ''not json''] =
     Inr \<lparr>fc_type = ''FeatureCollection'', features = []\<rparr> \<and>
   fst (addPolygons JSON_parse [example_state ''n'' ''not json''] init_world) = Inr () \<and>
   rendered_polygons (snd (addPolygons JSON_parse [example_state ''n'' ''not json''] init_world)) = [[]]"
proof -
  have g: "geojsonStates JSON_parse [example_state ''n'' ''not json''] =
     Inr \<lparr>fc_type = ''FeatureCollection'', features = []\<rparr>"
    by (simp add: geojsonStates_def included_def example_state_def)
  have "rendered_polygons (snd (addPolygons JSON_parse [example_state ''n'' ''not json''] init_world)) =
      [drawn \<lparr>fc_type = ''FeatureCollection'', features = []\<rparr>]"
    using init_world_ok g by (rule addPolygons_Inr_polygon_layers(2))
  then show ?thesis
    using g by (simp add: addPolygons_fst drawn_def example_state_def ToString_def JSON_parse_not_json)
qed

text \<open>
  C4. \<open>addPoints\<close> leaves in \<^verbatim>\<open>pointGroupLayer\<close> a new group, attached to the map,
  whose layers are the markers of the rows of the table: one for each row, in the order
  of the rows, equal rows and rows in any order included. Each marker holds the
  \<^verbatim>\<open>lat\<close> and \<^verbatim>\<open>long\<close> of its row as they stand, whatever they are, a missing one
  too. From a state of the page, these markers are all the map shows of points.
\<close>

theorem addPoints_one_marker_per_row:
  "pointGroupLayer (addPoints data w) = Some (next_ref w) \<and>
   next_ref w \<in> set (map_layers (addPoints data w)) \<and>
   markers_of (heap (addPoints data w)) (next_ref w) = map (\<lambda>r. Some (Marker (row_marker r))) data \<and>
   length (children (heap (addPoints data w)) (next_ref w)) = length data \<and>
   distinct (children (heap (addPoints data w)) (next_ref w)) \<and>
   (\<forall>r. latlng (row_marker r) = (lat r, long r)) \<and>
   (world_ok w \<longrightarrow>
      rendered_points (addPoints data w) = [map (\<lambda>r. Some (Marker (row_marker r))) data])"
proof (intro conjI impI allI)
  show "pointGroupLayer (addPoints data w) = Some (next_ref w)"
    by (rule addPoints_fields(3))
  show "next_ref w \<in> set (map_layers (addPoints data w))"
    by (rule addPoints_attached)
  show "markers_of (heap (addPoints data w)) (next_ref w) = map (\<lambda>r. Some (Marker (row_marker r))) data"
    by (rule addPoints_markers_of)
  show "length (children (heap (addPoints data w)) (next_ref w)) = length data"
    unfolding addPoints_children by (simp del: upt_Suc)
  show "distinct (children (heap (addPoints data w)) (next_ref w))"
    unfolding addPoints_children by (simp del: upt_Suc)
  show "latlng (row_marker r) = (lat r, long r)" for r
    by (simp add: row_marker_def)
  show "rendered_points (addPoints data w) = [map (\<lambda>r. Some (Marker (row_marker r))) data]"
    if "world_ok w"
    using that by (rule addPoints_point_layers(2))
qed

theorem addPoints_one_marker_per_row_witness:
  "world_ok init_world \<and>
   rendered_points
     (addPoints [example_law (Some ''40.0'') (Some ''-105.3'') ''Recycling'',
                 example_law None (Some ''abc'') ''Bag Ban'',
                 example_law (Some ''40.0'') (Some ''-105.3'') ''Recycling''] init_world) =
     [[Some (Marker (row_marker (example_law (Some ''40.0'') (Some ''-105.3'') ''Recycling''))),
       Some (Marker (row_marker (example_law None (Some ''abc'') ''Bag Ban''))),
       Some (Marker (row_marker (example_law (Some ''40.0'') (Some ''-105.3'') ''Recycling'')))]] \<and>
   latlng (row_marker (example_law None (Some ''abc'') ''Bag Ban'')) = (None, Some ''abc'') \<and>
   length (children
     (heap (addPoints [example_law (Some ''40.0'') (Some ''-105.3'') ''Recycling'',
                       example_law None (Some ''abc'') ''Bag Ban'',
                       example_law (Some ''40.0'') (Some ''-105.3'') ''Recycling''] init_world))
     (next_ref init_world)) = 3"
  using addPoints_one_marker_per_row
    [of "[example_law (Some ''40.0'') (Some ''-105.3'') ''Recycling'',
          example_law None (Some ''abc'') ''Bag Ban'',
          example_law (Some ''40.0'') (Some ''-105.3'') ''Recycling'']" init_world]
    init_world_ok
  by (simp add: example_law_def)

lemma addPolygons_slot:
  "polygonLayer (snd (addPolygons parse data w)) =
     (case geojsonStates parse data of Inl e \<Rightarrow> polygonLayer w | Inr fc \<Rightarrow> Some (next_ref w))"
  by (cases "geojsonStates parse data") (simp_all add: addPolygons_Inl addPolygons_Inr detached_simps)

lemma addPolygons_next_ref:
  "next_ref (snd (addPolygons parse data w)) =
     (case geojsonStates parse data of Inl e \<Rightarrow> next_ref w | Inr fc \<Rightarrow> Suc (next_ref w))"
  by (cases "geojsonStates parse data") (simp_all add: addPolygons_Inl addPolygons_Inr detached_simps)

lemma addPolygons_old_detached:
  assumes ok: "world_ok w" and l: "polygonLayer w = Some l"
  shows "l \<notin> set (map_layers (snd (addPolygons parse data w)))"
proof -
  have d: "l \<notin> set (map_layers (detached (polygonLayer w) w))"
    by (simp add: l detached_simps)
  from world_ok_polygonLayer [OF ok l] have "l \<noteq> next_ref w" by auto
  with d show ?thesis
    by (cases "geojsonStates parse data")
      (simp_all add: addPolygons_Inl addPolygons_Inr_ok [OF ok])
qed

lemma fst_Inr_iff:
  "fst (addPolygons parse data w) = Inr () \<longleftrightarrow> (\<exists>fc. geojsonStates parse data = Inr fc)"
  by (cases "geojsonStates parse data") (simp_all add: addPolygons_fst)

lemma fst_Inl_iff:
  "fst (addPolygons parse data w) = Inl e \<longleftrightarrow> geojsonStates parse data = Inl e"
  by (cases "geojsonStates parse data") (simp_all add: addPolygons_fst)

text \<open>
  C6, as the script has it. From a state of the page, a call of \<open>addPolygons\<close> that
  returns leaves exactly one polygon layer on the map, the new one, and \<^verbatim>\<open>polygonLayer\<close>
  holds it; so after two calls in a row that both return, the map has exactly one polygon
  layer, the second, and the first is not on the map. A call that throws leaves none, and
  \<^verbatim>\<open>polygonLayer\<close> as it was. Every call, returning or not, detaches the layer
  \<^verbatim>\<open>polygonLayer\<close> held and leaves at most one polygon layer on the map, in a state of
  the page again.
\<close>

theorem addPolygons_one_polygon_layer:
  assumes ok: "world_ok w"
  shows "(fst (addPolygons parse data w) = Inr () \<longrightarrow>
            polygon_layers (snd (addPolygons parse data w)) = [next_ref w] \<and>
            polygonLayer (snd (addPolygons parse data w)) = Some (next_ref w) \<and>
            length (polygon_layers (snd (addPolygons parse data w))) = 1) \<and>
         (\<forall>e. fst (addPolygons parse data w) = Inl e \<longrightarrow>
            polygon_layers (snd (addPolygons parse data w)) = [] \<and>
            polygonLayer (snd (addPolygons parse data w)) = polygonLayer w) \<and>
         length (polygon_layers (snd (addPolygons parse data w))) \<le> 1 \<and>
         (\<forall>l. polygonLayer w = Some l \<longrightarrow> l \<notin> set (map_layers (snd (addPolygons parse data w)))) \<and>
         world_ok (snd (addPolygons parse data w)) \<and>
         (fst (addPolygons parse data w) = Inr () \<longrightarrow>
          fst (addPolygons parse data' (snd (addPolygons parse data w))) = Inr () \<longrightarrow>
            polygon_layers (snd (addPolygons parse data' (snd (addPolygons parse data w)))) =
              [Suc (next_ref w)] \<and>
            next_ref w \<notin> set (map_layers (snd (addPolygons parse data' (snd (addPolygons parse data w))))))"
proof (intro conjI impI allI)
  let ?w1 = "snd (addPolygons parse data w)"
  let ?w2 = "snd (addPolygons parse data' ?w1)"
  have ok1: "world_ok ?w1" using ok by (rule addPolygons_world_ok)
  show "world_ok ?w1" by (rule ok1)
  show le: "length (polygon_layers ?w1) \<le> 1"
    by (cases "geojsonStates parse data")
      (simp_all add: addPolygons_Inl_polygon_layers(1) [OF ok] addPolygons_Inr_polygon_layers(1) [OF ok])
  show "l \<notin> set (map_layers ?w1)" if "polygonLayer w = Some l" for l
    using ok that by (rule addPolygons_old_detached)
  {
    fix e assume "fst (addPolygons parse data w) = Inl e"
    then have f: "geojsonStates parse data = Inl e"
      by (simp add: fst_Inl_iff)
    show "polygon_layers ?w1 = []"
      using ok f by (rule addPolygons_Inl_polygon_layers(1))
    show "polygonLayer ?w1 = polygonLayer w"
      by (simp add: addPolygons_slot f)
  }
  {
    assume "fst (addPolygons parse data w) = Inr ()"
    then obtain fc where fc: "geojsonStates parse data = Inr fc"
      unfolding fst_Inr_iff by blast
    show 1: "polygon_layers ?w1 = [next_ref w]"
      using ok fc by (rule addPolygons_Inr_polygon_layers(1))
    show 2: "polygonLayer ?w1 = Some (next_ref w)"
      by (simp add: addPolygons_slot fc)
    show "length (polygon_layers ?w1) = 1"
      by (simp add: 1)
    assume "fst (addPolygons parse data' ?w1) = Inr ()"
    then obtain fc' where fc': "geojsonStates parse data' = Inr fc'"
      unfolding fst_Inr_iff by blast
    have "polygon_layers ?w2 = [next_ref ?w1]"
      using ok1 fc' by (rule addPolygons_Inr_polygon_layers(1))
    then show "polygon_layers ?w2 = [Suc (next_ref w)]"
      by (simp add: addPolygons_next_ref fc)
    show "next_ref w \<notin> set (map_layers ?w2)"
      using ok1 2 by (rule addPolygons_old_detached)
  }
qed

lemma single_geojsonStates:
  "geojsonStates JSON_parse [example_state ''y'' example_square] =
     Inr \<lparr>fc_type = ''FeatureCollection'', features = [example_feature]\<rparr>"
  by (simp add: geojsonStates_def included_def example_state_def ToString_def JSON_parse_square
      example_feature_def)

lemma iowa_geojsonStates:
  "geojsonStates JSON_parse [named_state ''Iowa'' ''y''] =
     Inr \<lparr>fc_type = ''FeatureCollection'', features = [named_feature ''Iowa'']\<rparr>"
  by (simp add: geojsonStates_def included_def named_state_def ToString_def JSON_parse_square
      named_feature_def)

lemma after_single:
  "polygonLayer (snd (addPolygons JSON_parse [example_state ''y'' example_square] init_world)) = Some 1"
  "map_layers (snd (addPolygons JSON_parse [example_state ''y'' example_square] init_world)) = [0, 1]"
  "next_ref (snd (addPolygons JSON_parse [example_state ''y'' example_square] init_world)) = 2"
  by (simp_all add: addPolygons_Inr_ok [OF init_world_ok single_geojsonStates] detached_def
      init_world_fields)

lemma not_json_geojsonStates:
  "geojsonStates JSON_parse [example_state ''y'' ''not json''] = Inl SyntaxError"
  by (simp add: geojsonStates_def included_def example_state_def ToString_def JSON_parse_not_json)

lemma after_example_table:
  "world_ok (snd (addPolygons JSON_parse example_table init_world))"
  "polygonLayer (snd (addPolygons JSON_parse example_table init_world)) = Some 1"
  "map_layers (snd (addPolygons JSON_parse example_table init_world)) = [0, 1]"
  "next_ref (snd (addPolygons JSON_parse example_table init_world)) = 2"
  "polygon_layers (snd (addPolygons JSON_parse example_table init_world)) = [1]"
proof -
  show "world_ok (snd (addPolygons JSON_parse example_table init_world))"
    using init_world_ok by (rule addPolygons_world_ok)
  show "polygonLayer (snd (addPolygons JSON_parse example_table init_world)) = Some 1"
    "map_layers (snd (addPolygons JSON_parse example_table init_world)) = [0, 1]"
    "next_ref (snd (addPolygons JSON_parse example_table init_world)) = 2"
    by (simp_all add: addPolygons_Inr_ok [OF init_world_ok example_geojsonStates] detached_def
        init_world_fields)
  show "polygon_layers (snd (addPolygons JSON_parse example_table init_world)) = [1]"
    using addPolygons_Inr_polygon_layers(1) [OF init_world_ok example_geojsonStates]
    by (simp add: init_world_fields)
qed

theorem addPolygons_one_polygon_layer_witness:
  "world_ok (snd (addPolygons JSON_parse example_table init_world)) \<and>
   polygonLayer (snd (addPolygons JSON_parse example_table init_world)) = Some 1 \<and>
   1 \<in> set (map_layers (snd (addPolygons JSON_parse example_table init_world))) \<and>
   fst (addPolygons JSON_parse [example_state ''y'' example_square]
          (snd (addPolygons JSON_parse example_table init_world))) = Inr () \<and>
   polygon_layers
     (snd (addPolygons JSON_parse [example_state ''y'' example_square]
        (snd (addPolygons JSON_parse example_table init_world)))) = [2] \<and>
   1 \<notin> set (map_layers
     (snd (addPolygons JSON_parse [example_state ''y'' example_square]
        (snd (addPolygons JSON_parse example_table init_world))))) \<and>
   fst (addPolygons JSON_parse [named_state ''Iowa'' ''y'']
          (snd (addPolygons JSON_parse [example_state ''y'' example_square]
             (snd (addPolygons JSON_parse example_table init_world))))) = Inr () \<and>
   polygon_layers
     (snd (addPolygons JSON_parse [named_state ''Iowa'' ''y'']
        (snd (addPolygons JSON_parse [example_state ''y'' example_square]
           (snd (addPolygons JSON_parse example_table init_world)))))) = [3] \<and>
   2 \<notin> set (map_layers
     (snd (addPolygons JSON_parse [named_state ''Iowa'' ''y'']
        (snd (addPolygons JSON_parse [example_state ''y'' example_square]
           (snd (addPolygons JSON_parse example_table init_world))))))) \<and>
   fst (addPolygons JSON_parse [example_state ''y'' ''not json'']
          (snd (addPolygons JSON_parse example_table init_world))) = Inl SyntaxError \<and>
   polygon_layers
     (snd (addPolygons JSON_parse [example_state ''y'' ''not json'']
        (snd (addPolygons JSON_parse example_table init_world)))) = [] \<and>
   polygonLayer
     (snd (addPolygons JSON_parse [example_state ''y'' ''not json'']
        (snd (addPolygons JSON_parse example_table init_world)))) = Some 1"
proof -
  let ?w1 = "snd (addPolygons JSON_parse example_table init_world)"
  note w1 = after_example_table
  have s: "fst (addPolygons JSON_parse [example_state ''y'' example_square] w) = Inr ()"
    and i: "fst (addPolygons JSON_parse [named_state ''Iowa'' ''y''] w) = Inr ()"
    and b: "fst (addPolygons JSON_parse [example_state ''y'' ''not json''] w) = Inl SyntaxError" for w
    by (simp_all add: addPolygons_fst single_geojsonStates iowa_geojsonStates not_json_geojsonStates)
  from addPolygons_one_polygon_layer
    [OF w1(1), of JSON_parse "[example_state ''y'' example_square]" "[named_state ''Iowa'' ''y'']"]
    addPolygons_one_polygon_layer
    [OF w1(1), of JSON_parse "[example_state ''y'' ''not json'']" "[]"]
    w1 s i b
  show ?thesis
    by simp
qed

text \<open>
  C6, as stated, fails: a call that throws, made after a call that returned, ends with
  no polygon layer on the map, not with exactly one.
\<close>

theorem failing_build_leaves_no_polygon_layer:
  "fst (addPolygons JSON_parse example_table init_world) = Inr () \<and>
   polygon_layers (snd (addPolygons JSON_parse example_table init_world)) = [1] \<and>
   fst (addPolygons JSON_parse [example_state ''y'' ''not json'']
          (snd (addPolygons JSON_parse example_table init_world))) = Inl SyntaxError \<and>
   polygon_layers
     (snd (addPolygons JSON_parse [example_state ''y'' ''not json'']
        (snd (addPolygons JSON_parse example_table init_world)))) = [] \<and>
   length (polygon_layers
     (snd (addPolygons JSON_parse [example_state ''y'' ''not json'']
        (snd (addPolygons JSON_parse example_table init_world))))) \<noteq> 1"
proof -
  have "polygon_layers
     (snd (addPolygons JSON_parse [example_state ''y'' ''not json'']
        (snd (addPolygons JSON_parse example_table init_world)))) = []"
    using after_example_table(1) not_json_geojsonStates by (rule addPolygons_Inl_polygon_layers(1))
  then show ?thesis
    by (simp add: after_example_table addPolygons_fst example_geojsonStates not_json_geojsonStates)
qed

lemma deliver_world_ok: "world_ok w \<Longrightarrow> world_ok (deliver parse a w)"
  by (cases a) (simp_all add: addPolygons_world_ok addPoints_world_ok)

lemma run_world_ok: "world_ok w \<Longrightarrow> world_ok (run parse history w)"
  unfolding run_def by (induction history arbitrary: w) (simp_all add: deliver_world_ok)

text \<open>Every state the page reaches from its loading is a state of the page.\<close>

lemma reachable_world_ok: "world_ok (run parse history init_world)"
  using init_world_ok by (rule run_world_ok)

text \<open>What a delivery shows depends on the data delivered only.\<close>

lemma deliver_States_shows:
  assumes "world_ok w"
  shows "rendered_polygons (deliver parse (States d) w) =
     (case geojsonStates parse d of Inl e \<Rightarrow> [] | Inr fc \<Rightarrow> [drawn fc])"
  using assms
  by (cases "geojsonStates parse d")
    (simp_all add: addPolygons_Inl_polygon_layers(2) addPolygons_Inr_polygon_layers(2))

lemma deliver_Laws_shows:
  assumes "world_ok w"
  shows "rendered_points (deliver parse (Laws p) w) = [map (\<lambda>r. Some (Marker (row_marker r))) p]"
  using assms by (simp add: addPoints_point_layers(2))

text \<open>
  C7. The last arrival wins: what the map shows of a kind of layer after a delivery is
  what the data delivered makes, and nothing of what came before. From a state of the
  page \<open>w\<close>, after \<open>d1\<close> then \<open>d2\<close> the map shows the one polygon layer drawn from the
  collection of \<open>d2\<close>, each polygon with its feature (and no polygon when the build of
  \<open>d2\<close> throws); after \<open>p1\<close> then \<open>p2\<close> it shows one group with the markers of the
  rows of \<open>p2\<close>. Both are what the second delivery alone shows from any state of the
  page \<open>w0\<close>, the page as loaded, where both variables are \<^verbatim>\<open>undefined\<close>, among
  them. The same holds after any history of arrivals of both kinds in place of the
  first, and a delivery of one kind changes nothing of what is shown of the other.
\<close>

theorem last_arrival_wins:
  assumes ok: "world_ok w" and ok0: "world_ok w0"
  shows "rendered_polygons (deliver parse (States d2) (deliver parse (States d1) w)) =
           rendered_polygons (deliver parse (States d2) w0) \<and>
         rendered_polygons (deliver parse (States d2) (deliver parse (States d1) w)) =
           (case geojsonStates parse d2 of Inl e \<Rightarrow> [] | Inr fc \<Rightarrow> [drawn fc]) \<and>
         (\<forall>fc2. geojsonStates parse d2 = Inr fc2 \<longrightarrow>
            rendered_polygons (deliver parse (States d2) (deliver parse (States d1) w)) = [drawn fc2] \<and>
            map polygon_feature (drawn fc2) = features fc2) \<and>
         rendered_points (deliver parse (Laws p2) (deliver parse (Laws p1) w)) =
           rendered_points (deliver parse (Laws p2) w0) \<and>
         rendered_points (deliver parse (Laws p2) (deliver parse (Laws p1) w)) =
           [map (\<lambda>r. Some (Marker (row_marker r))) p2] \<and>
         rendered_polygons (deliver parse (States d2) (run parse history w)) =
           rendered_polygons (deliver parse (States d2) w0) \<and>
         rendered_polygons (deliver parse (States d2) (run parse history w)) =
           (case geojsonStates parse d2 of Inl e \<Rightarrow> [] | Inr fc \<Rightarrow> [drawn fc]) \<and>
         rendered_points (deliver parse (Laws p2) (run parse history w)) =
           rendered_points (deliver parse (Laws p2) w0) \<and>
         rendered_points (deliver parse (Laws p2) (run parse history w)) =
           [map (\<lambda>r. Some (Marker (row_marker r))) p2] \<and>
         rendered_polygons (deliver parse (Laws p1) w) = rendered_polygons w \<and>
         rendered_points (deliver parse (States d1) w) = rendered_points w"
proof (intro conjI allI impI)
  have ok1: "world_ok (deliver parse a w)" for a
    using ok by (rule deliver_world_ok)
  have okh: "world_ok (run parse history w)"
    using ok by (rule run_world_ok)
  show "rendered_polygons (deliver parse (States d2) (deliver parse (States d1) w)) =
      rendered_polygons (deliver parse (States d2) w0)"
    by (simp only: deliver_States_shows [OF ok1] deliver_States_shows [OF ok0])
  show "rendered_polygons (deliver parse (States d2) (deliver parse (States d1) w)) =
      (case geojsonStates parse d2 of Inl e \<Rightarrow> [] | Inr fc \<Rightarrow> [drawn fc])"
    by (rule deliver_States_shows [OF ok1])
  show "rendered_points (deliver parse (Laws p2) (deliver parse (Laws p1) w)) =
      rendered_points (deliver parse (Laws p2) w0)"
    by (simp only: deliver_Laws_shows [OF ok1] deliver_Laws_shows [OF ok0])
  show "rendered_points (deliver parse (Laws p2) (deliver parse (Laws p1) w)) =
      [map (\<lambda>r. Some (Marker (row_marker r))) p2]"
    by (rule deliver_Laws_shows [OF ok1])
  show "rendered_polygons (deliver parse (States d2) (run parse history w)) =
      rendered_polygons (deliver parse (States d2) w0)"
    by (simp only: deliver_States_shows [OF okh] deliver_States_shows [OF ok0])
  show "rendered_polygons (deliver parse (States d2) (run parse history w)) =
      (case geojsonStates parse d2 of Inl e \<Rightarrow> [] | Inr fc \<Rightarrow> [drawn fc])"
    by (rule deliver_States_shows [OF okh])
  show "rendered_points (deliver parse (Laws p2) (run parse history w)) =
      rendered_points (deliver parse (Laws p2) w0)"
    by (simp only: deliver_Laws_shows [OF okh] deliver_Laws_shows [OF ok0])
  show "rendered_points (deliver parse (Laws p2) (run parse history w)) =
      [map (\<lambda>r. Some (Marker (row_marker r))) p2]"
    by (rule deliver_Laws_shows [OF okh])
  show "rendered_polygons (deliver parse (Laws p1) w) = rendered_polygons w"
    using ok by (simp add: addPoints_polygon_layers(2))
  show "rendered_points (deliver parse (States d1) w) = rendered_points w"
    using ok by (simp add: addPolygons_rendered_points)
  fix fc2 assume fc2: "geojsonStates parse d2 = Inr fc2"
  show "rendered_polygons (deliver parse (States d2) (deliver parse (States d1) w)) = [drawn fc2]"
    by (simp only: deliver_States_shows [OF ok1] fc2 sum.case)
  show "map polygon_feature (drawn fc2) = features fc2"
    by (simp add: drawn_def onEachFeature_def comp_def)
qed

theorem last_arrival_wins_witness:
  "world_ok init_world \<and> polygonLayer init_world = None \<and> pointGroupLayer init_world = None \<and>
   geojsonStates JSON_parse [named_state ''Iowa'' ''y''] =
     Inr \<lparr>fc_type = ''FeatureCollection'', features = [named_feature ''Iowa'']\<rparr> \<and>
   rendered_polygons
     (deliver JSON_parse (States [named_state ''Iowa'' ''y''])
        (deliver JSON_parse (States [named_state ''Utah'' ''y'']) init_world)) =
     rendered_polygons (deliver JSON_parse (States [named_state ''Iowa'' ''y'']) init_world) \<and>
   rendered_polygons
     (deliver JSON_parse (States [named_state ''Iowa'' ''y''])
        (deliver JSON_parse (States [named_state ''Utah'' ''y'']) init_world)) =
     [drawn \<lparr>fc_type = ''FeatureCollection'', features = [named_feature ''Iowa'']\<rparr>] \<and>
   map polygon_feature (drawn \<lparr>fc_type = ''FeatureCollection'', features = [named_feature ''Iowa'']\<rparr>) =
     [named_feature ''Iowa''] \<and>
   rendered_points
     (deliver JSON_parse (Laws [example_law (Some ''40.0'') (Some ''-105.3'') ''Recycling''])
        (deliver JSON_parse (Laws [example_law None None ''Bag Ban'']) init_world)) =
     rendered_points
       (deliver JSON_parse (Laws [example_law (Some ''40.0'') (Some ''-105.3'') ''Recycling'']) init_world) \<and>
   rendered_points
     (deliver JSON_parse (Laws [example_law (Some ''40.0'') (Some ''-105.3'') ''Recycling''])
        (deliver JSON_parse (Laws [example_law None None ''Bag Ban'']) init_world)) =
     [[Some (Marker (row_marker (example_law (Some ''40.0'') (Some ''-105.3'') ''Recycling'')))]] \<and>
   markerColor (the (marker_icon (row_marker (example_law (Some ''40.0'') (Some ''-105.3'') ''Recycling'')))) =
     ''blue'' \<and>
   rendered_polygons
     (deliver JSON_parse (States [named_state ''Iowa'' ''y''])
        (run JSON_parse
           [States [named_state ''Utah'' ''y''], Laws [example_law None None ''Bag Ban''],
            States [example_state ''y'' ''not json'']] init_world)) =
     [drawn \<lparr>fc_type = ''FeatureCollection'', features = [named_feature ''Iowa'']\<rparr>] \<and>
   rendered_points
     (deliver JSON_parse (Laws [example_law (Some ''40.0'') (Some ''-105.3'') ''Recycling''])
        (run JSON_parse
           [States [named_state ''Utah'' ''y''], Laws [example_law None None ''Bag Ban''],
            States [example_state ''y'' ''not json'']] init_world)) =
     [[Some (Marker (row_marker (example_law (Some ''40.0'') (Some ''-105.3'') ''Recycling'')))]]"
proof -
  let ?utah = "[named_state ''Utah'' ''y'']"
  let ?iowa = "[named_state ''Iowa'' ''y'']"
  let ?fc = "\<lparr>fc_type = ''FeatureCollection'', features = [named_feature ''Iowa'']\<rparr>"
  let ?p1 = "[example_law None None ''Bag Ban'']"
  let ?p2 = "[example_law (Some ''40.0'') (Some ''-105.3'') ''Recycling'']"
  let ?h = "[States ?utah, Laws ?p1, States [example_state ''y'' ''not json'']]"
  note t = last_arrival_wins
    [where w = init_world and ?w0.0 = init_world and parse = JSON_parse
       and ?d1.0 = ?utah and ?d2.0 = ?iowa and ?p1.0 = ?p1 and ?p2.0 = ?p2 and history = ?h,
     OF init_world_ok init_world_ok]
  have 0: "world_ok init_world" "polygonLayer init_world = None" "pointGroupLayer init_world = None"
    "geojsonStates JSON_parse ?iowa = Inr ?fc"
    by (simp_all add: init_world_ok init_world_fields iowa_geojsonStates)
  have mc: "markerColor (the (marker_icon (row_marker
      (example_law (Some ''40.0'') (Some ''-105.3'') ''Recycling'')))) = ''blue''"
    by (simp add: row_marker_def example_law_def getColor_def)
  from t have 1: "rendered_polygons (deliver JSON_parse (States ?iowa) (deliver JSON_parse (States ?utah) init_world)) =
      rendered_polygons (deliver JSON_parse (States ?iowa) init_world)"
    by blast
  from t 0(4) have 2: "rendered_polygons (deliver JSON_parse (States ?iowa) (deliver JSON_parse (States ?utah) init_world)) =
      [drawn ?fc]"
    and "map polygon_feature (drawn ?fc) = features ?fc"
    by blast+
  then have 3: "map polygon_feature (drawn ?fc) = [named_feature ''Iowa'']"
    by simp
  from t have 4: "rendered_points (deliver JSON_parse (Laws ?p2) (deliver JSON_parse (Laws ?p1) init_world)) =
      rendered_points (deliver JSON_parse (Laws ?p2) init_world)"
    and 5: "rendered_points (deliver JSON_parse (Laws ?p2) (deliver JSON_parse (Laws ?p1) init_world)) =
      [map (\<lambda>r. Some (Marker (row_marker r))) ?p2]"
    and 6: "rendered_polygons (deliver JSON_parse (States ?iowa) (run JSON_parse ?h init_world)) =
      (case geojsonStates JSON_parse ?iowa of Inl e \<Rightarrow> [] | Inr fc \<Rightarrow> [drawn fc])"
    and 7: "rendered_points (deliver JSON_parse (Laws ?p2) (run JSON_parse ?h init_world)) =
      [map (\<lambda>r. Some (Marker (row_marker r))) ?p2]"
    by blast+
  have 5: "rendered_points (deliver JSON_parse (Laws ?p2) (deliver JSON_parse (Laws ?p1) init_world)) =
      [[Some (Marker (row_marker (example_law (Some ''40.0'') (Some ''-105.3'') ''Recycling'')))]]"
    unfolding 5 by simp
  have 6: "rendered_polygons (deliver JSON_parse (States ?iowa) (run JSON_parse ?h init_world)) =
      [drawn ?fc]"
    unfolding 6 0(4) by simp
  have 7: "rendered_points (deliver JSON_parse (Laws ?p2) (run JSON_parse ?h init_world)) =
      [[Some (Marker (row_marker (example_law (Some ''40.0'') (Some ''-105.3'') ''Recycling'')))]]"
    unfolding 7 by simp
  show ?thesis
    by (intro conjI) (fact 0 mc 1 2 3 4 5 6 7)+
qed

text \<open>
  C9. \<open>addPolygons\<close> is not atomic: from a state of the page where \<^verbatim>\<open>polygonLayer\<close>
  holds a layer that is on the map, a call that fails on the geometry of a row that
  passes the test, whichever row it is, ends with that layer detached and no other
  attached in its place, so that the map shows no polygons, while \<^verbatim>\<open>polygonLayer\<close>
  still holds the detached layer and no object has changed.
\<close>

theorem addPolygons_failure_detaches_old_layer:
  assumes ok: "world_ok w"
    and slot: "polygonLayer w = Some l"
    and att: "l \<in> set (map_layers w)"
    and bad: "r \<in> set data" "row_include r = Some ''y''" "parse (ToString (row_geometry r)) = None"
  shows "fst (addPolygons parse data w) = Inl SyntaxError \<and>
         map_layers (snd (addPolygons parse data w)) = removeAll l (map_layers w) \<and>
         l \<notin> set (map_layers (snd (addPolygons parse data w))) \<and>
         polygon_layers (snd (addPolygons parse data w)) = [] \<and>
         rendered_polygons (snd (addPolygons parse data w)) = [] \<and>
         polygonLayer (snd (addPolygons parse data w)) = Some l \<and>
         heap (snd (addPolygons parse data w)) = heap w"
proof -
  from bad have f: "geojsonStates parse data = Inl SyntaxError"
    unfolding geojsonStates_Inl_iff by blast
  have w': "snd (addPolygons parse data w) = detached (polygonLayer w) w"
    by (simp add: addPolygons_Inl [OF f])
  show ?thesis
    using addPolygons_Inl_polygon_layers [OF ok f]
    by (simp add: addPolygons_fst f) (simp add: w' detached_simps slot)
qed

theorem addPolygons_failure_detaches_old_layer_witness:
  "polygonLayer (snd (addPolygons JSON_parse [example_state ''y'' example_square] init_world)) = Some 1 \<and>
   1 \<in> set (map_layers (snd (addPolygons JSON_parse [example_state ''y'' example_square] init_world))) \<and>
   example_state ''y'' ''not json'' \<in> set [example_state ''y'' ''not json''] \<and>
   JSON_parse (ToString (row_geometry (example_state ''y'' ''not json''))) = None \<and>
   fst (addPolygons JSON_parse [example_state ''y'' ''not json'']
          (snd (addPolygons JSON_parse [example_state ''y'' example_square] init_world))) = Inl SyntaxError \<and>
   map_layers (snd (addPolygons JSON_parse [example_state ''y'' ''not json'']
          (snd (addPolygons JSON_parse [example_state ''y'' example_square] init_world)))) = [0] \<and>
   rendered_polygons (snd (addPolygons JSON_parse [example_state ''y'' ''not json'']
          (snd (addPolygons JSON_parse [example_state ''y'' example_square] init_world)))) = [] \<and>
   polygonLayer (snd (addPolygons JSON_parse [example_state ''y'' ''not json'']
          (snd (addPolygons JSON_parse [example_state ''y'' example_square] init_world)))) = Some 1"
proof -
  let ?w1 = "snd (addPolygons JSON_parse [example_state ''y'' example_square] init_world)"
  have ok1: "world_ok ?w1"
    using init_world_ok by (rule addPolygons_world_ok)
  have r: "example_state ''y'' ''not json'' \<in> set [example_state ''y'' ''not json'']"
    "row_include (example_state ''y'' ''not json'') = Some ''y''"
    "JSON_parse (ToString (row_geometry (example_state ''y'' ''not json''))) = None"
    by (simp_all add: example_state_def ToString_def JSON_parse_not_json)
  have att: "1 \<in> set (map_layers ?w1)"
    by (simp add: after_single)
  from addPolygons_failure_detaches_old_layer
    [where parse = JSON_parse and data = "[example_state ''y'' ''not json'']"
       and r = "example_state ''y'' ''not json''", OF ok1 after_single(1) att r] r att
  show ?thesis
    by (simp add: after_single)
qed

end
